theory Spec2Isabelle
  imports Complex_Main
begin

section \<open>Layout engine: the GridManager class\<close>

text \<open>
  Grid coordinates are JavaScript numbers that the engine only ever produces by
  \<^verbatim>\<open>Math.round\<close>, \<^verbatim>\<open>Math.max\<close>, \<^verbatim>\<open>Math.min\<close> and integer steps; they are modelled as
  \<^typ>\<open>int\<close>. The container width is a pixel quantity, kept as a \<^typ>\<open>real\<close>; no
  definition computes with it.
\<close>

text \<open>The geometry part of a widget's \<^verbatim>\<open>config\<close> entry in \<^verbatim>\<open>GridManager.widgets\<close>.\<close>

record rect =
  rx :: int
  ry :: int
  rw :: int
  rh :: int

text \<open>\<^verbatim>\<open>this.gridConfig\<close>: columns, row height and gap in pixels, container width.\<close>

record grid_config =
  gcCols :: int
  gcRowHeight :: int
  gcGap :: int
  containerWidth :: real

text \<open>The fields of \<^verbatim>\<open>this.config\<close> that the placement code reads.\<close>

record grid_options =
  preventOverlap :: bool
  minWidgetSize :: "int \<times> int"
  maxWidgetSize :: "int \<times> int"

text \<open>
  \<^verbatim>\<open>this.widgets\<close> is a \<^verbatim>\<open>Map\<close> from widget id to its entry; it is kept as an association
  list in insertion order.
\<close>

record grid_manager =
  gm_widgets :: "(string \<times> rect) list"
  gridConfig :: grid_config
  config :: grid_options

definition default_options :: grid_options where
  "default_options =
     \<lparr>preventOverlap = True, minWidgetSize = (1, 1), maxWidgetSize = (12, 8)\<rparr>"

text \<open>
  \<^verbatim>\<open>getOccupiedCells(excludeId)\<close>: the cells \<^verbatim>\<open>"col,row"\<close> of every widget but the
  excluded one. The string key \<^verbatim>\<open>`${col},${row}`\<close> is the pair \<open>(col, row)\<close>.
\<close>

definition rect_cells :: "rect \<Rightarrow> (int \<times> int) list" where
  "rect_cells c =
     concat (map (\<lambda>row. map (\<lambda>col. (col, row)) [rx c .. rx c + rw c - 1])
                 [ry c .. ry c + rh c - 1])"

definition getOccupiedCells :: "grid_manager \<Rightarrow> string option \<Rightarrow> (int \<times> int) set" where
  "getOccupiedCells gm excludeId =
     set (concat (map (\<lambda>(i, c). if Some i = excludeId then [] else rect_cells c)
                      (gm_widgets gm)))"

text \<open>\<^verbatim>\<open>hasOverlap(x, y, w, h, occupied)\<close>: some cell of the rectangle is occupied.\<close>

definition hasOverlap :: "int \<Rightarrow> int \<Rightarrow> int \<Rightarrow> int \<Rightarrow> (int \<times> int) set \<Rightarrow> bool" where
  "hasOverlap x y w h occupied =
     list_ex (\<lambda>row. list_ex (\<lambda>col. (col, row) \<in> occupied) [x .. x + w - 1])
             [y .. y + h - 1]"

text \<open>
  The two nested \<^verbatim>\<open>while\<close> loops of \<^verbatim>\<open>validatePosition\<close>. The inner one walks
  \<^verbatim>\<open>testX\<close> up to \<^verbatim>\<open>cols - w + 1\<close>, the outer one walks \<^verbatim>\<open>testY\<close> below \<^verbatim>\<open>y + 20\<close>;
  \<open>Some\<close> is the \<^verbatim>\<open>return\<close> inside the loops.
\<close>

function scan_cols ::
  "int \<Rightarrow> int \<Rightarrow> int \<Rightarrow> (int \<times> int) set \<Rightarrow> int \<Rightarrow> int \<Rightarrow> (int \<times> int) option" where
  "scan_cols cs w h occupied testY testX =
     (if testX \<le> cs - w + 1
      then (if \<not> hasOverlap testX testY w h occupied then Some (testX, testY)
            else scan_cols cs w h occupied testY (testX + 1))
      else None)"
  by pat_completeness auto
termination
  by (relation "measure (\<lambda>(cs, w, h, occupied, testY, testX). nat (cs - w + 2 - testX))") auto

function scan_rows ::
  "int \<Rightarrow> int \<Rightarrow> int \<Rightarrow> (int \<times> int) set \<Rightarrow> int \<Rightarrow> int \<Rightarrow> int \<Rightarrow> (int \<times> int) option" where
  "scan_rows cs w h occupied x y testY =
     (if testY < y + 20
      then (case scan_cols cs w h occupied testY x of
              Some p \<Rightarrow> Some p
            | None \<Rightarrow> scan_rows cs w h occupied x y (testY + 1))
      else None)"
  by pat_completeness auto
termination
  by (relation "measure (\<lambda>(cs, w, h, occupied, x, y, testY). nat (y + 20 - testY))") auto

declare scan_cols.simps [simp del] scan_rows.simps [simp del]

definition validatePosition ::
  "grid_manager \<Rightarrow> int \<Rightarrow> int \<Rightarrow> int \<Rightarrow> int \<Rightarrow> string option \<Rightarrow> int \<times> int" where
  "validatePosition gm x0 y0 w h excludeId =
     (let x = max 1 (min (gcCols (gridConfig gm) - w + 1) x0);
          y = max 1 y0
      in if preventOverlap (config gm)
         then (case scan_rows (gcCols (gridConfig gm)) w h (getOccupiedCells gm excludeId) x y y of
                 Some p \<Rightarrow> p
               | None \<Rightarrow> (x, y))
         else (x, y))"

text \<open>
  The bounded search window in row-major order, as a list: rows \<open>y .. y + 19\<close>, and in
  each row the columns \<open>x .. cols - w + 1\<close>.
\<close>

definition search_window :: "int \<Rightarrow> int \<Rightarrow> int \<Rightarrow> int \<Rightarrow> (int \<times> int) list" where
  "search_window cs w x y =
     concat (map (\<lambda>row. map (\<lambda>col. (col, row)) [x .. cs - w + 1]) [y .. y + 19])"

definition cell_free :: "grid_manager \<Rightarrow> int \<Rightarrow> int \<Rightarrow> string option \<Rightarrow> int \<times> int \<Rightarrow> bool" where
  "cell_free gm w h excludeId p =
     (\<not> hasOverlap (fst p) (snd p) w h (getOccupiedCells gm excludeId))"

datatype direction = Dir_n | Dir_s | Dir_e | Dir_w | Dir_ne | Dir_nw | Dir_se | Dir_sw

text \<open>
  \<^verbatim>\<open>calculateResize(direction, deltaX, deltaY, x, y, w, h)\<close>. The method first turns the
  pointer delta into grid units, \<^verbatim>\<open>deltaGridX = Math.round(deltaX / cellWidth)\<close> and
  \<^verbatim>\<open>deltaGridY = Math.round(deltaY / cellHeight)\<close>, in double-precision arithmetic.
  That arithmetic is not modelled: the two rounded values are the arguments here, and
  the model covers the calls in which they are finite, hence integers. The \<^verbatim>\<open>switch\<close>
  follows.
\<close>

definition calculateResize ::
  "direction \<Rightarrow> int \<Rightarrow> int \<Rightarrow> int \<Rightarrow> int \<Rightarrow> int \<Rightarrow> int \<Rightarrow> rect" where
  "calculateResize dir deltaGridX deltaGridY x y w h =
     (case dir of
        Dir_n \<Rightarrow> \<lparr>rx = x, ry = y + deltaGridY, rw = w, rh = h - deltaGridY\<rparr>
      | Dir_s \<Rightarrow> \<lparr>rx = x, ry = y, rw = w, rh = h + deltaGridY\<rparr>
      | Dir_w \<Rightarrow> \<lparr>rx = x + deltaGridX, ry = y, rw = w - deltaGridX, rh = h\<rparr>
      | Dir_e \<Rightarrow> \<lparr>rx = x, ry = y, rw = w + deltaGridX, rh = h\<rparr>
      | Dir_nw \<Rightarrow> \<lparr>rx = x + deltaGridX, ry = y + deltaGridY,
                   rw = w - deltaGridX, rh = h - deltaGridY\<rparr>
      | Dir_ne \<Rightarrow> \<lparr>rx = x, ry = y + deltaGridY,
                   rw = w + deltaGridX, rh = h - deltaGridY\<rparr>
      | Dir_sw \<Rightarrow> \<lparr>rx = x + deltaGridX, ry = y,
                   rw = w - deltaGridX, rh = h + deltaGridY\<rparr>
      | Dir_se \<Rightarrow> \<lparr>rx = x, ry = y, rw = w + deltaGridX, rh = h + deltaGridY\<rparr>)"

text \<open>\<^verbatim>\<open>validateResize(result, widgetId)\<close>, statement by statement.\<close>

definition validateResize :: "grid_manager \<Rightarrow> rect \<Rightarrow> string \<Rightarrow> rect" where
  "validateResize gm result widgetId =
     (let w = max (fst (minWidgetSize (config gm))) (min (fst (maxWidgetSize (config gm))) (rw result));
          h = max (snd (minWidgetSize (config gm))) (min (snd (maxWidgetSize (config gm))) (rh result));
          x1 = max 1 (rx result);
          y = max 1 (ry result);
          x = min (gcCols (gridConfig gm) - w + 1) x1
      in if preventOverlap (config gm)
         then (let validPos = validatePosition gm x y w h (Some widgetId)
               in \<lparr>rx = fst validPos, ry = snd validPos, rw = w, rh = h\<rparr>)
         else \<lparr>rx = x, ry = y, rw = w, rh = h\<rparr>)"

text \<open>
  One \<^verbatim>\<open>pointermove\<close> of a resize session (\<^verbatim>\<open>handleResizeMove\<close>) on a widget of the
  grid, with the pointer delta in grid units as above: the rectangle that
  \<^verbatim>\<open>positionWidget\<close> receives and that \<^verbatim>\<open>finishResize\<close> later commits.
\<close>

definition handleResizeMove ::
  "grid_manager \<Rightarrow> string \<Rightarrow> direction \<Rightarrow> int \<Rightarrow> int \<Rightarrow> rect \<Rightarrow> rect" where
  "handleResizeMove gm widgetId dir deltaGridX deltaGridY original =
     validateResize gm
       (calculateResize dir deltaGridX deltaGridY
          (rx original) (ry original) (rw original) (rh original))
       widgetId"

text \<open>
  \<^verbatim>\<open>positionWidget(id, x, y, w, h)\<close>: the entry's \<^verbatim>\<open>config\<close> is overwritten; an unknown
  id is ignored. (The style and data attributes of the element are not modelled.)
\<close>

definition positionWidget :: "grid_manager \<Rightarrow> string \<Rightarrow> int \<Rightarrow> int \<Rightarrow> int \<Rightarrow> int \<Rightarrow> grid_manager" where
  "positionWidget gm i x y w h =
     gm\<lparr>gm_widgets :=
          map (\<lambda>(j, c). if j = i then (j, \<lparr>rx = x, ry = y, rw = w, rh = h\<rparr>) else (j, c))
              (gm_widgets gm)\<rparr>"

section \<open>State store: the StateManager class\<close>

subsection \<open>Data\<close>

text \<open>
  The objects of the store have a fixed shape, so they are records. A field's JavaScript
  type is the type of the record field: the \<^verbatim>\<open>typeof\<close> tests of the validators hold by
  typing, and what remains of each test is its comparison. Numbers are integers.
\<close>

record grid_settings =
  cols :: int
  rowHeight :: int
  gap :: int

record widget =
  w_id :: string
  w_type :: string
  w_x :: int
  w_y :: int
  w_w :: int
  w_h :: int
  w_minimized :: bool
  w_config :: "(string \<times> string) list"

text \<open>
  Keys that the object spreads carry along and no method reads: \<^verbatim>\<open>lastModified\<close>
  (written by \<^verbatim>\<open>saveImmediate\<close>), \<^verbatim>\<open>exportedAt\<close> and \<^verbatim>\<open>exportVersion\<close> (written by
  \<^verbatim>\<open>exportLayout\<close>). Time stamps are the clock value in milliseconds.
\<close>

record extra_keys =
  lastModified :: "nat option"
  exportedAt :: "nat option"
  exportVersion :: "string option"

definition no_extras :: extra_keys where
  "no_extras = \<lparr>lastModified = None, exportedAt = None, exportVersion = None\<rparr>"

text \<open>\<^verbatim>\<open>this.state\<close>.\<close>

record dashboard_state =
  grid :: grid_settings
  widgets :: "widget list"
  theme :: string
  version :: string
  extras :: extra_keys

text \<open>
  A document as \<^verbatim>\<open>JSON.parse\<close> returns it from storage, or as \<^verbatim>\<open>JSON.stringify\<close>
  writes it: any of the keys may be missing (\<open>None\<close> is \<^verbatim>\<open>undefined\<close>). Its widgets are
  values; the documents of \<^verbatim>\<open>importLayout\<close>, whose widgets are objects of the running
  program, come further down.
\<close>

record doc =
  d_grid :: "grid_settings option"
  d_widgets :: "widget list option"
  d_theme :: "string option"
  d_version :: "string option"
  d_extras :: extra_keys

text \<open>The state seen as a document (\<^verbatim>\<open>{ ...this.state }\<close>).\<close>

definition doc_of :: "dashboard_state \<Rightarrow> doc" where
  "doc_of st =
     \<lparr>d_grid = Some (grid st), d_widgets = Some (widgets st), d_theme = Some (theme st),
      d_version = Some (version st), d_extras = extras st\<rparr>"

text \<open>
  What \<^verbatim>\<open>localStorage.getItem\<close> followed by \<^verbatim>\<open>JSON.parse\<close> can meet. A stored text is
  represented by what parsing it gives. Texts for other JSON values (numbers, strings,
  arrays) are not modelled.
\<close>

datatype blob =
    Unreadable    \<comment> \<open>\<^verbatim>\<open>getItem\<close> itself throws\<close>
  | Absent        \<comment> \<open>\<^verbatim>\<open>getItem\<close> returns \<^verbatim>\<open>null\<close> or the empty string\<close>
  | Malformed     \<comment> \<open>a text that \<^verbatim>\<open>JSON.parse\<close> rejects\<close>
  | Null_json     \<comment> \<open>the text \<^verbatim>\<open>null\<close>\<close>
  | Record doc    \<comment> \<open>the text of an object\<close>

text \<open>What \<^verbatim>\<open>localStorage.setItem\<close> does with a document: store it, or throw an error
  of some name.\<close>

datatype write_result = Stored | Throws string

datatype error =
    Error string      \<comment> \<open>\<^verbatim>\<open>new Error(message)\<close>\<close>
  | TypeError         \<comment> \<open>a property read on \<^verbatim>\<open>null\<close>\<close>
  | SyntaxError       \<comment> \<open>thrown by \<^verbatim>\<open>JSON.parse\<close>\<close>
  | DOMException      \<comment> \<open>thrown by \<^verbatim>\<open>localStorage.getItem\<close>\<close>

datatype outcome = Returned | Threw error

text \<open>
  The StateManager together with the parts of its host that it acts on: the pending
  timeouts of the event loop (handle and due time; every one of them was set by
  \<^verbatim>\<open>save\<close>, with \<^verbatim>\<open>saveImmediate\<close> as callback), the handle the next
  \<^verbatim>\<open>setTimeout\<close> returns, the clock, the stored item, and two logs: every call of
  \<^verbatim>\<open>localStorage.setItem\<close> with its result, and every event name passed to \<^verbatim>\<open>emit\<close>.
  Listeners are foreign code and are taken not to call back into the store.
\<close>

record store =
  state :: dashboard_state
  debounceTimer :: "nat option"
  timers :: "(nat \<times> nat) list"
  nextHandle :: nat
  clock :: nat
  item :: blob
  setItemLog :: "(doc \<times> write_result) list"
  emitted :: "string list"

definition default_state :: dashboard_state where
  "default_state =
     \<lparr>grid = \<lparr>cols = 12, rowHeight = 4, gap = 1\<rparr>, widgets = [], theme = ''system'',
      version = ''1.0.0'', extras = no_extras\<rparr>"

definition debounceDelay :: nat where
  "debounceDelay = 500"

text \<open>The store as the constructor leaves it, on a host with the given clock and item.\<close>

definition new_store :: "nat \<Rightarrow> blob \<Rightarrow> store" where
  "new_store now stored =
     \<lparr>state = default_state, debounceTimer = None, timers = [], nextHandle = 1,
      clock = now, item = stored, setItemLog = [], emitted = []\<rparr>"

definition emit :: "string \<Rightarrow> store \<Rightarrow> store" where
  "emit event s = s\<lparr>emitted := emitted s @ [event]\<rparr>"

subsection \<open>Validation\<close>

text \<open>\<^verbatim>\<open>validateWidget(widget)\<close>: \<^verbatim>\<open>!widget.id\<close> holds of the empty string.\<close>

definition validateWidget :: "widget \<Rightarrow> bool" where
  "validateWidget wd =
     (if w_id wd = [] then False
      else if w_type wd = [] then False
      else if w_x wd < 1 then False
      else if w_y wd < 1 then False
      else if w_w wd < 1 then False
      else if w_h wd < 1 then False
      else True)"

text \<open>\<^verbatim>\<open>validateState(state)\<close>.\<close>

definition validateState :: "doc \<Rightarrow> bool" where
  "validateState d =
     (case d_grid d of
        None \<Rightarrow> False
      | Some g \<Rightarrow>
          (case d_widgets d of
             None \<Rightarrow> False
           | Some ws \<Rightarrow>
               (case d_theme d of
                  None \<Rightarrow> False
                | Some t \<Rightarrow>
                    if t = [] then False
                    else if cols g < 1 \<or> cols g > 24 then False
                    else if rowHeight g < 1 then False
                    else if gap g < 0 then False
                    else list_all validateWidget ws)))"

subsection \<open>Version strings\<close>

text \<open>
  \<^verbatim>\<open>a.split('.')\<close>: the pieces between the dots; the empty string gives one empty piece.
\<close>

fun split_dots :: "string \<Rightarrow> string list" where
  "split_dots [] = [[]]"
| "split_dots (c # cs) =
     (if c = CHR ''.'' then [] # split_dots cs
      else (case split_dots cs of
              [] \<Rightarrow> [[c]]
            | p # ps \<Rightarrow> (c # p) # ps))"

text \<open>
  JavaScript numbers as far as version pieces need them: \<^verbatim>\<open>NaN\<close>, the two infinities
  and the finite values. A finite value is kept exactly; the rounding of a double (beyond
  \<open>2\<^sup>5\<^sup>3\<close>, or to an infinity beyond about \<open>1.8e308\<close>) is not modelled.
\<close>

datatype js_number = NaN | NegInfinity | Finite rat | PosInfinity

fun js_less :: "js_number \<Rightarrow> js_number \<Rightarrow> bool" where
  "js_less NaN b = False"
| "js_less a NaN = False"
| "js_less PosInfinity b = False"
| "js_less a NegInfinity = False"
| "js_less NegInfinity b = True"
| "js_less a PosInfinity = True"
| "js_less (Finite x) (Finite y) = (x < y)"

fun js_negate :: "js_number \<Rightarrow> js_number" where
  "js_negate NaN = NaN"
| "js_negate NegInfinity = PosInfinity"
| "js_negate (Finite x) = Finite (- x)"
| "js_negate PosInfinity = NegInfinity"

text \<open>
  \<^verbatim>\<open>Number(piece)\<close> on a piece of a version string (a string without a dot), after the
  grammar of the language for strings as numbers: blanks around the literal are skipped;
  nothing is left gives \<open>0\<close>; \<^verbatim>\<open>0x\<close>, \<^verbatim>\<open>0o\<close> and \<^verbatim>\<open>0b\<close> introduce hexadecimal,
  octal and binary digits; otherwise there may be a sign, and then \<^verbatim>\<open>Infinity\<close> or
  decimal digits with an optional exponent. Anything else is \<^verbatim>\<open>NaN\<close>. Strings are
  ASCII; the blanks are tab, line feed, vertical tab, form feed, carriage return and
  space.
\<close>

definition is_blank :: "char \<Rightarrow> bool" where
  "is_blank c = (c \<in> set [CHR 0x09, CHR 0x0A, CHR 0x0B, CHR 0x0C, CHR 0x0D, CHR 0x20])"

definition trim :: "string \<Rightarrow> string" where
  "trim cs = rev (dropWhile is_blank (rev (dropWhile is_blank cs)))"

definition digit_value :: "nat \<Rightarrow> char \<Rightarrow> nat option" where
  "digit_value base c =
     (case map_of (zip ''0123456789abcdef'' [0 ..< 16] @ zip ''ABCDEF'' [10 ..< 16]) c of
        None \<Rightarrow> None
      | Some v \<Rightarrow> if v < base then Some v else None)"

fun number_from :: "nat \<Rightarrow> nat \<Rightarrow> string \<Rightarrow> nat option" where
  "number_from base acc [] = Some acc"
| "number_from base acc (c # cs) =
     (case digit_value base c of
        None \<Rightarrow> None
      | Some v \<Rightarrow> number_from base (base * acc + v) cs)"

text \<open>One digit at least.\<close>

definition digits :: "nat \<Rightarrow> string \<Rightarrow> nat option" where
  "digits base cs = (if cs = [] then None else number_from base 0 cs)"

definition is_exponent_mark :: "char \<Rightarrow> bool" where
  "is_exponent_mark c = (c = CHR ''e'' \<or> c = CHR ''E'')"

text \<open>The exponent after the mark, with its sign: the power of ten to multiply by.\<close>

definition exponent_factor :: "string \<Rightarrow> rat option" where
  "exponent_factor cs =
     (case cs of
        [] \<Rightarrow> None
      | c # ds \<Rightarrow>
          if c = CHR ''-'' then map_option (\<lambda>e. 1 / 10 ^ e) (digits 10 ds)
          else if c = CHR ''+'' then map_option (\<lambda>e. 10 ^ e) (digits 10 ds)
          else map_option (\<lambda>e. 10 ^ e) (digits 10 cs))"

definition unsigned_decimal :: "string \<Rightarrow> js_number" where
  "unsigned_decimal cs =
     (if cs = ''Infinity'' then PosInfinity
      else
        (case digits 10 (takeWhile (\<lambda>c. \<not> is_exponent_mark c) cs) of
           None \<Rightarrow> NaN
         | Some mantissa \<Rightarrow>
             (case dropWhile (\<lambda>c. \<not> is_exponent_mark c) cs of
                [] \<Rightarrow> Finite (of_nat mantissa)
              | mark # ex \<Rightarrow>
                  (case exponent_factor ex of
                     None \<Rightarrow> NaN
                   | Some f \<Rightarrow> Finite (of_nat mantissa * f)))))"

definition of_digits :: "nat option \<Rightarrow> js_number" where
  "of_digits v = (case v of None \<Rightarrow> NaN | Some n \<Rightarrow> Finite (of_nat n))"

definition Number :: "string \<Rightarrow> js_number" where
  "Number piece =
     (let t = trim piece
      in if t = [] then Finite 0
         else if take 2 t = ''0x'' \<or> take 2 t = ''0X'' then of_digits (digits 16 (drop 2 t))
         else if take 2 t = ''0o'' \<or> take 2 t = ''0O'' then of_digits (digits 8 (drop 2 t))
         else if take 2 t = ''0b'' \<or> take 2 t = ''0B'' then of_digits (digits 2 (drop 2 t))
         else if hd t = CHR ''+'' then unsigned_decimal (tl t)
         else if hd t = CHR ''-'' then js_negate (unsigned_decimal (tl t))
         else unsigned_decimal t)"

text \<open>
  \<^verbatim>\<open>parts[i] || 0\<close>: a missing piece, \<^verbatim>\<open>NaN\<close> and zero all give \<open>0\<close>.
\<close>

definition part_or_0 :: "js_number list \<Rightarrow> nat \<Rightarrow> js_number" where
  "part_or_0 parts i =
     (if i < length parts
      then (case parts ! i of
              NaN \<Rightarrow> Finite 0
            | NegInfinity \<Rightarrow> NegInfinity
            | Finite x \<Rightarrow> Finite x
            | PosInfinity \<Rightarrow> PosInfinity)
      else Finite 0)"

text \<open>The \<^verbatim>\<open>for\<close> loop of \<^verbatim>\<open>compareVersions\<close> over the indices still to visit.\<close>

fun compare_parts :: "js_number list \<Rightarrow> js_number list \<Rightarrow> nat list \<Rightarrow> int" where
  "compare_parts aParts bParts [] = 0"
| "compare_parts aParts bParts (i # rest) =
     (if js_less (part_or_0 aParts i) (part_or_0 bParts i) then - 1
      else if js_less (part_or_0 bParts i) (part_or_0 aParts i) then 1
      else compare_parts aParts bParts rest)"

definition compareVersions :: "string \<Rightarrow> string \<Rightarrow> int" where
  "compareVersions a b =
     (let aParts = map Number (split_dots a);
          bParts = map Number (split_dots b)
      in compare_parts aParts bParts [0 ..< max (length aParts) (length bParts)])"

subsection \<open>Widget ids\<close>

text \<open>Decimal digits of a number, for \<^verbatim>\<open>`${timestamp}`\<close>.\<close>

fun decimal :: "nat \<Rightarrow> string" where
  "decimal n =
     (if n < 10 then [''0123456789'' ! n]
      else decimal (n div 10) @ [''0123456789'' ! (n mod 10)])"

declare decimal.simps [simp del]

text \<open>
  \<^verbatim>\<open>generateWidgetId(type)\<close>. \<^verbatim>\<open>Date.now()\<close> is the clock;
  \<^verbatim>\<open>Math.random().toString(36).substr(2, 9)\<close> is the argument \<open>random\<close>, supplied by
  the caller of the model.
\<close>

definition generateWidgetId :: "nat \<Rightarrow> string \<Rightarrow> string \<Rightarrow> string" where
  "generateWidgetId now random type = type @ ''-'' @ decimal now @ ''-'' @ random"

subsection \<open>Migration\<close>

text \<open>
  The \<^verbatim>\<open>map\<close> of \<^verbatim>\<open>migrateToV1\<close> with its set \<^verbatim>\<open>seenIds\<close>: a widget whose id was seen
  gets a new id. \<open>rnd k\<close> is the random suffix of the \<open>k\<close>-th call of
  \<^verbatim>\<open>generateWidgetId\<close>; the number of calls made is returned with the list. The
  assignment \<^verbatim>\<open>widget.id = ...\<close> is made on the object; here, for \<^verbatim>\<open>load\<close>, the
  document is what \<^verbatim>\<open>JSON.parse\<close> has just built, a tree of objects that nothing else
  holds, and the assignment is a new value at that place of the list. The form for a
  document of a caller is \<open>unique_ids_in_place\<close> below.
\<close>

fun unique_ids ::
  "nat \<Rightarrow> (nat \<Rightarrow> string) \<Rightarrow> string set \<Rightarrow> nat \<Rightarrow> widget list \<Rightarrow> widget list \<times> nat" where
  "unique_ids now rnd seenIds k [] = ([], k)"
| "unique_ids now rnd seenIds k (wd # rest) =
     (if w_id wd \<in> seenIds
      then (let wd' = wd\<lparr>w_id := generateWidgetId now (rnd k) (w_type wd)\<rparr>;
                r = unique_ids now rnd (insert (w_id wd') seenIds) (Suc k) rest
            in (wd' # fst r, snd r))
      else (let r = unique_ids now rnd (insert (w_id wd) seenIds) k rest
            in (wd # fst r, snd r)))"

text \<open>\<^verbatim>\<open>migrateToV1(state)\<close>; \<^verbatim>\<open>state.theme || 'system'\<close> also replaces an empty theme.\<close>

definition migrateToV1 :: "store \<Rightarrow> (nat \<Rightarrow> string) \<Rightarrow> doc \<Rightarrow> doc \<times> nat" where
  "migrateToV1 s rnd d =
     (let r = unique_ids (clock s) rnd {} 0 (case d_widgets d of None \<Rightarrow> [] | Some ws \<Rightarrow> ws)
      in (\<lparr>d_grid = Some (case d_grid d of None \<Rightarrow> grid (state s) | Some g \<Rightarrow> g),
           d_widgets = Some (fst r),
           d_theme = Some (case d_theme d of
                             None \<Rightarrow> ''system''
                           | Some t \<Rightarrow> if t = [] then ''system'' else t),
           d_version = Some ''1.0.0'',
           d_extras = no_extras\<rparr>,
          snd r))"

text \<open>
  \<^verbatim>\<open>migrateState(state)\<close>. The current version is read from \<^verbatim>\<open>this.state.version\<close>;
  \<^verbatim>\<open>state.version || '0.0.0'\<close> also replaces an empty version string. The second
  component counts the calls of \<^verbatim>\<open>generateWidgetId\<close>.
\<close>

definition migrateState :: "store \<Rightarrow> (nat \<Rightarrow> string) \<Rightarrow> doc \<Rightarrow> doc \<times> nat" where
  "migrateState s rnd d =
     (let currentVersion = version (state s);
          stateVersion = (case d_version d of
                            None \<Rightarrow> ''0.0.0''
                          | Some v \<Rightarrow> if v = [] then ''0.0.0'' else v)
      in if stateVersion = currentVersion then (d, 0)
         else (let r = (if compareVersions stateVersion ''1.0.0'' < 0
                        then migrateToV1 s rnd d else (d, 0))
               in ((fst r)\<lparr>d_version := Some currentVersion\<rparr>, snd r)))"

subsection \<open>Persistence\<close>

definition clearTimeout :: "nat \<Rightarrow> (nat \<times> nat) list \<Rightarrow> (nat \<times> nat) list" where
  "clearTimeout handle pending = filter (\<lambda>(h, due). h \<noteq> handle) pending"

text \<open>
  \<^verbatim>\<open>save()\<close>: a pending timer is cleared and a new one is set. A handle is truthy when
  it is not \<open>0\<close>.
\<close>

definition save :: "store \<Rightarrow> store" where
  "save s =
     (let pending = (case debounceTimer s of
                       None \<Rightarrow> timers s
                     | Some handle \<Rightarrow>
                         if handle \<noteq> 0 then clearTimeout handle (timers s) else timers s)
      in s\<lparr>timers := pending @ [(nextHandle s, clock s + debounceDelay)],
            debounceTimer := Some (nextHandle s),
            nextHandle := Suc (nextHandle s)\<rparr>)"

text \<open>\<^verbatim>\<open>stateToSave\<close> and \<^verbatim>\<open>essentialState\<close> of the two writers.\<close>

definition stateToSave :: "store \<Rightarrow> doc" where
  "stateToSave s = (doc_of (state s))\<lparr>d_extras := (extras (state s))\<lparr>lastModified := Some (clock s)\<rparr>\<rparr>"

definition essentialState :: "store \<Rightarrow> dashboard_state" where
  "essentialState s =
     \<lparr>grid = grid (state s),
      widgets = drop (length (widgets (state s)) - 20) (widgets (state s)),
      theme = theme (state s),
      version = version (state s),
      extras = no_extras\<rparr>"

text \<open>
  \<^verbatim>\<open>saveImmediate()\<close>, with \<^verbatim>\<open>handleQuotaExceeded()\<close> and \<^verbatim>\<open>reset()\<close> written into it:
  the three call each other (\<^verbatim>\<open>reset\<close> saves again), and nothing bounds the number of
  rounds when the storage keeps refusing, so the function is partial; \<open>None\<close> is the
  run that never returns. \<open>setItem\<close> is the behaviour of \<^verbatim>\<open>localStorage.setItem\<close> on
  this key.
\<close>

partial_function (option) saveImmediate :: "(doc \<Rightarrow> write_result) \<Rightarrow> store \<Rightarrow> store option" where
  "saveImmediate setItem s =
     (let first = setItem (stateToSave s);
          s1 = s\<lparr>setItemLog := setItemLog s @ [(stateToSave s, first)]\<rparr>
      in if first = Stored
         then Some (emit ''save'' (s1\<lparr>item := Record (stateToSave s)\<rparr>))
         else if first = Throws ''QuotaExceededError''
         then (let retry = setItem (doc_of (essentialState s));
                   s2 = s1\<lparr>setItemLog := setItemLog s1 @ [(doc_of (essentialState s), retry)]\<rparr>
               in if retry = Stored
                  then Some (s2\<lparr>item := Record (doc_of (essentialState s)),
                                state := essentialState s\<rparr>)
                  else Option.bind (saveImmediate setItem (s2\<lparr>state := default_state\<rparr>))
                         (\<lambda>s3. Some (emit ''reset'' s3)))
         else Some s1)"

text \<open>\<^verbatim>\<open>reset()\<close> and \<^verbatim>\<open>handleQuotaExceeded()\<close> on their own.\<close>

definition reset :: "(doc \<Rightarrow> write_result) \<Rightarrow> store \<Rightarrow> store option" where
  "reset setItem s =
     Option.bind (saveImmediate setItem (s\<lparr>state := default_state\<rparr>))
       (\<lambda>s'. Some (emit ''reset'' s'))"

definition handleQuotaExceeded :: "(doc \<Rightarrow> write_result) \<Rightarrow> store \<Rightarrow> store option" where
  "handleQuotaExceeded setItem s =
     (let retry = setItem (doc_of (essentialState s));
          s2 = s\<lparr>setItemLog := setItemLog s @ [(doc_of (essentialState s), retry)]\<rparr>
      in if retry = Stored
         then Some (s2\<lparr>item := Record (doc_of (essentialState s)), state := essentialState s\<rparr>)
         else reset setItem s2)"

text \<open>\<^verbatim>\<open>flush()\<close>.\<close>

definition flush :: "(doc \<Rightarrow> write_result) \<Rightarrow> store \<Rightarrow> store option" where
  "flush setItem s =
     (case debounceTimer s of
        None \<Rightarrow> Some s
      | Some handle \<Rightarrow>
          if handle \<noteq> 0
          then saveImmediate setItem (s\<lparr>timers := clearTimeout handle (timers s)\<rparr>)
          else Some s)"

text \<open>
  The host's event loop: when the clock reaches \<open>t\<close>, the timeouts due by then run in
  the order they were set, each at its due time; a timeout that has run is no longer
  pending. The callback of every timeout is \<^verbatim>\<open>() => this.saveImmediate()\<close>.
\<close>

fun run_callbacks :: "(doc \<Rightarrow> write_result) \<Rightarrow> (nat \<times> nat) list \<Rightarrow> store \<Rightarrow> store option" where
  "run_callbacks setItem [] s = Some s"
| "run_callbacks setItem ((handle, due) # rest) s =
     Option.bind (saveImmediate setItem (s\<lparr>clock := max (clock s) due\<rparr>))
       (run_callbacks setItem rest)"

definition advance :: "(doc \<Rightarrow> write_result) \<Rightarrow> nat \<Rightarrow> store \<Rightarrow> store option" where
  "advance setItem t s =
     Option.bind
       (run_callbacks setItem (filter (\<lambda>(h, due). due \<le> t) (timers s))
          (s\<lparr>timers := filter (\<lambda>(h, due). \<not> due \<le> t) (timers s)\<rparr>))
       (\<lambda>s'. Some (s'\<lparr>clock := max (clock s') t\<rparr>))"

text \<open>A burst of \<^verbatim>\<open>save()\<close> calls, one at each of the given times.\<close>

fun save_calls :: "(doc \<Rightarrow> write_result) \<Rightarrow> nat list \<Rightarrow> store \<Rightarrow> store option" where
  "save_calls setItem [] s = Some s"
| "save_calls setItem (t # ts) s =
     Option.bind (advance setItem t s) (\<lambda>s'. save_calls setItem ts (save s'))"

text \<open>
  The times of a burst: each call comes no earlier than the one before and less than the
  debounce delay after it; \<open>t\<close> is the time of the call before the list.
\<close>

fun within_window :: "nat \<Rightarrow> nat list \<Rightarrow> bool" where
  "within_window t [] = True"
| "within_window t (t' # ts) = (t \<le> t' \<and> t' < t + debounceDelay \<and> within_window t' ts)"

subsection \<open>Loading\<close>

text \<open>\<^verbatim>\<open>{ ...this.state, ...migratedState }\<close>: a key of the document wins where it is present.\<close>

definition spread_extras :: "extra_keys \<Rightarrow> extra_keys \<Rightarrow> extra_keys" where
  "spread_extras a b =
     \<lparr>lastModified = (case lastModified b of None \<Rightarrow> lastModified a | Some v \<Rightarrow> Some v),
      exportedAt = (case exportedAt b of None \<Rightarrow> exportedAt a | Some v \<Rightarrow> Some v),
      exportVersion = (case exportVersion b of None \<Rightarrow> exportVersion a | Some v \<Rightarrow> Some v)\<rparr>"

definition spread_state :: "dashboard_state \<Rightarrow> doc \<Rightarrow> dashboard_state" where
  "spread_state st d =
     \<lparr>grid = (case d_grid d of None \<Rightarrow> grid st | Some g \<Rightarrow> g),
      widgets = (case d_widgets d of None \<Rightarrow> widgets st | Some ws \<Rightarrow> ws),
      theme = (case d_theme d of None \<Rightarrow> theme st | Some t \<Rightarrow> t),
      version = (case d_version d of None \<Rightarrow> version st | Some v \<Rightarrow> v),
      extras = spread_extras (extras st) (d_extras d)\<rparr>"

text \<open>
  \<^verbatim>\<open>load()\<close>. Whatever the \<^verbatim>\<open>try\<close> block throws is logged and thrown again by the
  \<^verbatim>\<open>catch\<close> block. \<^verbatim>\<open>await this.save()\<close> is the debounced \<^verbatim>\<open>save\<close>.
\<close>

definition load :: "(nat \<Rightarrow> string) \<Rightarrow> store \<Rightarrow> outcome \<times> store" where
  "load rnd s =
     (case item s of
        Unreadable \<Rightarrow> (Threw DOMException, s)
      | Absent \<Rightarrow> (Returned, save s)
      | Malformed \<Rightarrow> (Threw SyntaxError, s)
      | Null_json \<Rightarrow> (Threw TypeError, s)
      | Record parsedState \<Rightarrow>
          (let migratedState = fst (migrateState s rnd parsedState)
           in if validateState migratedState
              then (Returned, s\<lparr>state := spread_state (state s) migratedState\<rparr>)
              else (Returned, save s)))"

text \<open>\<^verbatim>\<open>init()\<close>: an error of \<^verbatim>\<open>load\<close> is caught and logged.\<close>

definition init :: "(nat \<Rightarrow> string) \<Rightarrow> store \<Rightarrow> store" where
  "init rnd s = snd (load rnd s)"

subsection \<open>Mutations\<close>

text \<open>
  Every mutation returns whether it returned or threw together with the store at that
  moment, so that what a throwing call leaves behind is visible.
\<close>

fun findIndex :: "('a \<Rightarrow> bool) \<Rightarrow> 'a list \<Rightarrow> nat option" where
  "findIndex P [] = None"
| "findIndex P (x # xs) = (if P x then Some 0 else map_option Suc (findIndex P xs))"

definition set_widgets :: "widget list \<Rightarrow> store \<Rightarrow> store" where
  "set_widgets ws s = s\<lparr>state := (state s)\<lparr>widgets := ws\<rparr>\<rparr>"

text \<open>
  \<^verbatim>\<open>addWidget(widget)\<close>; \<open>random\<close> is the suffix drawn if the id is taken. The argument
  is an object that the store does not hold yet.
\<close>

definition addWidget :: "string \<Rightarrow> store \<Rightarrow> widget \<Rightarrow> outcome \<times> store" where
  "addWidget random s wd =
     (if \<not> validateWidget wd then (Threw (Error ''Invalid widget configuration''), s)
      else
        let wd' = (if list_ex (\<lambda>w. w_id w = w_id wd) (widgets (state s))
                   then wd\<lparr>w_id := generateWidgetId (clock s) random (w_type wd)\<rparr>
                   else wd)
        in (Returned, emit ''widgetAdded'' (save (set_widgets (widgets (state s) @ [wd']) s))))"

text \<open>The \<^verbatim>\<open>updates\<close> object of \<^verbatim>\<open>updateWidget\<close>: the keys it has.\<close>

record widget_updates =
  u_id :: "string option"
  u_type :: "string option"
  u_x :: "int option"
  u_y :: "int option"
  u_w :: "int option"
  u_h :: "int option"
  u_minimized :: "bool option"
  u_config :: "(string \<times> string) list option"

definition spread_widget :: "widget \<Rightarrow> widget_updates \<Rightarrow> widget" where
  "spread_widget wd u =
     \<lparr>w_id = (case u_id u of None \<Rightarrow> w_id wd | Some v \<Rightarrow> v),
      w_type = (case u_type u of None \<Rightarrow> w_type wd | Some v \<Rightarrow> v),
      w_x = (case u_x u of None \<Rightarrow> w_x wd | Some v \<Rightarrow> v),
      w_y = (case u_y u of None \<Rightarrow> w_y wd | Some v \<Rightarrow> v),
      w_w = (case u_w u of None \<Rightarrow> w_w wd | Some v \<Rightarrow> v),
      w_h = (case u_h u of None \<Rightarrow> w_h wd | Some v \<Rightarrow> v),
      w_minimized = (case u_minimized u of None \<Rightarrow> w_minimized wd | Some v \<Rightarrow> v),
      w_config = (case u_config u of None \<Rightarrow> w_config wd | Some v \<Rightarrow> v)\<rparr>"

definition updateWidget :: "store \<Rightarrow> string \<Rightarrow> widget_updates \<Rightarrow> outcome \<times> store" where
  "updateWidget s i updates =
     (case findIndex (\<lambda>w. w_id w = i) (widgets (state s)) of
        None \<Rightarrow> (Threw (Error (''Widget not found: '' @ i)), s)
      | Some index \<Rightarrow>
          (let wd = spread_widget (widgets (state s) ! index) updates
           in if \<not> validateWidget wd then (Threw (Error ''Invalid widget update''), s)
              else (Returned,
                    emit ''widgetUpdated''
                      (save (set_widgets ((widgets (state s))[index := wd]) s)))))"

definition removeWidget :: "store \<Rightarrow> string \<Rightarrow> outcome \<times> store" where
  "removeWidget s i =
     (case findIndex (\<lambda>w. w_id w = i) (widgets (state s)) of
        None \<Rightarrow> (Threw (Error (''Widget not found: '' @ i)), s)
      | Some index \<Rightarrow>
          (Returned,
           emit ''widgetRemoved''
             (save (set_widgets (take index (widgets (state s)) @
                                 drop (Suc index) (widgets (state s))) s))))"

text \<open>
  \<^verbatim>\<open>moveWidget\<close>, \<^verbatim>\<open>resizeWidget\<close> and \<^verbatim>\<open>toggleWidgetMinimized\<close> assign to the object
  that \<^verbatim>\<open>find\<close> returns, the first widget of the list with the id.
\<close>

definition moveWidget :: "store \<Rightarrow> string \<Rightarrow> int \<Rightarrow> int \<Rightarrow> outcome \<times> store" where
  "moveWidget s i x y =
     (case findIndex (\<lambda>w. w_id w = i) (widgets (state s)) of
        None \<Rightarrow> (Threw (Error (''Widget not found: '' @ i)), s)
      | Some index \<Rightarrow>
          (Returned,
           emit ''widgetMoved''
             (save (set_widgets
                ((widgets (state s))[index := (widgets (state s) ! index)\<lparr>w_x := x, w_y := y\<rparr>]) s))))"

definition resizeWidget :: "store \<Rightarrow> string \<Rightarrow> int \<Rightarrow> int \<Rightarrow> outcome \<times> store" where
  "resizeWidget s i w h =
     (case findIndex (\<lambda>wd. w_id wd = i) (widgets (state s)) of
        None \<Rightarrow> (Threw (Error (''Widget not found: '' @ i)), s)
      | Some index \<Rightarrow>
          (Returned,
           emit ''widgetResized''
             (save (set_widgets
                ((widgets (state s))[index := (widgets (state s) ! index)\<lparr>w_w := w, w_h := h\<rparr>]) s))))"

definition toggleWidgetMinimized :: "store \<Rightarrow> string \<Rightarrow> outcome \<times> store" where
  "toggleWidgetMinimized s i =
     (case findIndex (\<lambda>w. w_id w = i) (widgets (state s)) of
        None \<Rightarrow> (Threw (Error (''Widget not found: '' @ i)), s)
      | Some index \<Rightarrow>
          (Returned,
           emit ''widgetToggled''
             (save (set_widgets
                ((widgets (state s))[index :=
                   (widgets (state s) ! index)\<lparr>w_minimized := \<not> w_minimized (widgets (state s) ! index)\<rparr>])
                s))))"

definition validThemes :: "string list" where
  "validThemes = [''system'', ''light'', ''dark'', ''amoled'']"

definition setTheme :: "store \<Rightarrow> string \<Rightarrow> outcome \<times> store" where
  "setTheme s t =
     (if t \<notin> set validThemes then (Threw (Error (''Invalid theme: '' @ t)), s)
      else (Returned, emit ''themeChanged'' (save (s\<lparr>state := (state s)\<lparr>theme := t\<rparr>\<rparr>))))"

text \<open>
  The argument of \<^verbatim>\<open>updateGrid\<close>: the keys it has. \<^verbatim>\<open>gridConfig.cols || current\<close>
  takes the current value for a missing key and for \<open>0\<close>.
\<close>

record grid_updates =
  g_cols :: "int option"
  g_rowHeight :: "int option"
  g_gap :: "int option"

definition or_current :: "int option \<Rightarrow> int \<Rightarrow> int" where
  "or_current v current = (case v of None \<Rightarrow> current | Some n \<Rightarrow> if n = 0 then current else n)"

definition updateGrid :: "store \<Rightarrow> grid_updates \<Rightarrow> outcome \<times> store" where
  "updateGrid s gridConfig' =
     (let validatedGrid =
            \<lparr>cols = max 1 (min 24 (or_current (g_cols gridConfig') (cols (grid (state s))))),
             rowHeight = max 1 (or_current (g_rowHeight gridConfig') (rowHeight (grid (state s)))),
             gap = max 0 (or_current (g_gap gridConfig') (gap (grid (state s))))\<rparr>
      in (Returned, emit ''gridUpdated'' (save (s\<lparr>state := (state s)\<lparr>grid := validatedGrid\<rparr>\<rparr>))))"

subsection \<open>Export and import\<close>

text \<open>
  The document that a caller hands to \<^verbatim>\<open>importLayout\<close> is an object of the running
  program, and the elements of its \<^verbatim>\<open>widgets\<close> array are objects that other arrays may
  hold too: \<^verbatim>\<open>exportLayout()\<close> returns \<^verbatim>\<open>{ ...this.state, ... }\<close>, a copy of the top level
  only, so the widgets of an exported document are the widget objects of the store
  itself. \<^verbatim>\<open>migrateToV1\<close> assigns \<^verbatim>\<open>widget.id\<close> on the objects it is given. For the two
  methods the widget objects therefore lie in a heap of two regions: the objects held by
  \<^verbatim>\<open>this.state.widgets\<close>, in the order of that array (they are taken to be distinct
  objects), and the other objects that the document reaches. An element of the
  \<^verbatim>\<open>widgets\<close> array of a document is a reference into one of the regions, so the same
  object can occur at several places; a reference beyond its region stands for an
  element that is not an object (\<^verbatim>\<open>undefined\<close>).
\<close>

datatype widget_ref =
    Live nat    \<comment> \<open>the object at this index of \<^verbatim>\<open>this.state.widgets\<close>\<close>
  | Own nat     \<comment> \<open>an object of the caller, by its index\<close>

record heap =
  live :: "widget list"
  own :: "widget list"

record layout =
  l_grid :: "grid_settings option"
  l_widgets :: "widget_ref list option"
  l_theme :: "string option"
  l_version :: "string option"
  l_extras :: extra_keys

fun deref :: "heap \<Rightarrow> widget_ref \<Rightarrow> widget option" where
  "deref hp (Live k) = (if k < length (live hp) then Some (live hp ! k) else None)"
| "deref hp (Own k) = (if k < length (own hp) then Some (own hp ! k) else None)"

text \<open>The assignment \<^verbatim>\<open>widget.id = i\<close> on the object of a reference.\<close>

fun assign_id :: "heap \<Rightarrow> widget_ref \<Rightarrow> string \<Rightarrow> heap" where
  "assign_id hp (Live k) i = hp\<lparr>live := (live hp)[k := (live hp ! k)\<lparr>w_id := i\<rparr>]\<rparr>"
| "assign_id hp (Own k) i = hp\<lparr>own := (own hp)[k := (own hp ! k)\<lparr>w_id := i\<rparr>]\<rparr>"

text \<open>
  The document as its keys read in a heap; \<open>None\<close> if an element of the \<^verbatim>\<open>widgets\<close>
  array is not an object.
\<close>

definition contents :: "heap \<Rightarrow> layout \<Rightarrow> doc option" where
  "contents hp l =
     (case l_widgets l of
        None \<Rightarrow>
          Some \<lparr>d_grid = l_grid l, d_widgets = None, d_theme = l_theme l,
                d_version = l_version l, d_extras = l_extras l\<rparr>
      | Some refs \<Rightarrow>
          map_option
            (\<lambda>ws. \<lparr>d_grid = l_grid l, d_widgets = Some ws, d_theme = l_theme l,
                    d_version = l_version l, d_extras = l_extras l\<rparr>)
            (those (map (deref hp) refs)))"

text \<open>
  The \<^verbatim>\<open>map\<close> of \<^verbatim>\<open>migrateToV1\<close> on the objects themselves: \<^verbatim>\<open>widget.id\<close> is read from
  the object as it is when its turn comes and is assigned on it; the array returned
  holds the same references. Reading \<^verbatim>\<open>widget.id\<close> of an element that is not an object
  throws a \<^verbatim>\<open>TypeError\<close>, and the assignments made before it stay.
\<close>

fun unique_ids_in_place ::
  "nat \<Rightarrow> (nat \<Rightarrow> string) \<Rightarrow> string set \<Rightarrow> nat \<Rightarrow> heap \<Rightarrow> widget_ref list
     \<Rightarrow> outcome \<times> heap \<times> nat" where
  "unique_ids_in_place now rnd seenIds k hp [] = (Returned, hp, k)"
| "unique_ids_in_place now rnd seenIds k hp (r # rest) =
     (case deref hp r of
        None \<Rightarrow> (Threw TypeError, hp, k)
      | Some wd \<Rightarrow>
          if w_id wd \<in> seenIds
          then (let i = generateWidgetId now (rnd k) (w_type wd)
                in unique_ids_in_place now rnd (insert i seenIds) (Suc k) (assign_id hp r i) rest)
          else unique_ids_in_place now rnd (insert (w_id wd) seenIds) k hp rest)"

text \<open>
  \<^verbatim>\<open>migrateToV1(state)\<close> and \<^verbatim>\<open>migrateState(state)\<close> on a document of the caller. The
  result is the outcome, the heap, the migrated document (of no meaning when the
  outcome is a throw) and the number of calls of \<^verbatim>\<open>generateWidgetId\<close>.
\<close>

definition migrateToV1_in_place ::
  "store \<Rightarrow> (nat \<Rightarrow> string) \<Rightarrow> heap \<Rightarrow> layout \<Rightarrow> outcome \<times> heap \<times> layout \<times> nat" where
  "migrateToV1_in_place s rnd hp l =
     (let refs = (case l_widgets l of None \<Rightarrow> [] | Some refs \<Rightarrow> refs);
          r = unique_ids_in_place (clock s) rnd {} 0 hp refs
      in (fst r, fst (snd r),
          \<lparr>l_grid = Some (case l_grid l of None \<Rightarrow> grid (state s) | Some g \<Rightarrow> g),
           l_widgets = Some refs,
           l_theme = Some (case l_theme l of
                             None \<Rightarrow> ''system''
                           | Some t \<Rightarrow> if t = [] then ''system'' else t),
           l_version = Some ''1.0.0'',
           l_extras = no_extras\<rparr>,
          snd (snd r)))"

definition migrateState_in_place ::
  "store \<Rightarrow> (nat \<Rightarrow> string) \<Rightarrow> heap \<Rightarrow> layout \<Rightarrow> outcome \<times> heap \<times> layout \<times> nat" where
  "migrateState_in_place s rnd hp l =
     (let currentVersion = version (state s);
          stateVersion = (case l_version l of
                            None \<Rightarrow> ''0.0.0''
                          | Some v \<Rightarrow> if v = [] then ''0.0.0'' else v)
      in if stateVersion = currentVersion then (Returned, hp, l, 0)
         else (let r = (if compareVersions stateVersion ''1.0.0'' < 0
                        then migrateToV1_in_place s rnd hp l else (Returned, hp, l, 0))
               in (fst r, fst (snd r), (fst (snd (snd r)))\<lparr>l_version := Some currentVersion\<rparr>,
                   snd (snd (snd r)))))"

text \<open>\<^verbatim>\<open>exportLayout()\<close>: the widgets of the document are the objects of the store.\<close>

definition exportLayout :: "store \<Rightarrow> layout" where
  "exportLayout s =
     \<lparr>l_grid = Some (grid (state s)),
      l_widgets = Some (map Live [0 ..< length (widgets (state s))]),
      l_theme = Some (theme (state s)),
      l_version = Some (version (state s)),
      l_extras = (extras (state s))\<lparr>exportedAt := Some (clock s),
                                     exportVersion := Some (version (state s))\<rparr>\<rparr>"

text \<open>
  \<^verbatim>\<open>importLayout(layoutData)\<close>, with the objects of the caller before and after; \<open>None\<close>
  is an argument that is not an object. The heap starts with the widgets of the store
  as its first region, and whatever the migration assigned there is in the store when
  the method throws. \<^verbatim>\<open>validateState\<close> is false of a document with an element that is
  not an object; after it the keys \<^verbatim>\<open>grid\<close>, \<^verbatim>\<open>widgets\<close> and \<^verbatim>\<open>theme\<close> are present, and the
  last branch of the \<open>case\<close> is never taken. The imported widgets are new objects. The
  random suffixes continue after those that the migration drew.
\<close>

definition importLayout ::
  "(doc \<Rightarrow> write_result) \<Rightarrow> (nat \<Rightarrow> string) \<Rightarrow> store \<Rightarrow> widget list \<Rightarrow> layout option
     \<Rightarrow> (outcome \<times> store \<times> widget list) option" where
  "importLayout setItem rnd s objects layoutData =
     (case layoutData of
        None \<Rightarrow> Some (Threw (Error ''Invalid import data''), s, objects)
      | Some l \<Rightarrow>
          (let migrated = migrateState_in_place s rnd \<lparr>live = widgets (state s), own = objects\<rparr> l;
               hp = fst (snd migrated);
               migratedData = fst (snd (snd migrated));
               s0 = set_widgets (live hp) s
           in case fst migrated of
                Threw e \<Rightarrow> Some (Threw e, s0, own hp)
              | Returned \<Rightarrow>
                  (case contents hp migratedData of
                     None \<Rightarrow> Some (Threw (Error ''Invalid layout data structure''), s0, own hp)
                   | Some d \<Rightarrow>
                       if \<not> validateState d
                       then Some (Threw (Error ''Invalid layout data structure''), s0, own hp)
                       else
                         (case (d_grid d, d_widgets d, d_theme d) of
                            (Some g, Some ws, Some t) \<Rightarrow>
                              (let importedWidgets =
                                     map (\<lambda>(k, wd). wd\<lparr>w_id := generateWidgetId (clock s) (rnd k) (w_type wd)\<rparr>)
                                         (enumerate (snd (snd (snd migrated))) ws);
                                   s1 = s\<lparr>state := \<lparr>grid = g, widgets = importedWidgets, theme = t,
                                                    version = version (state s),
                                                    extras = d_extras d\<rparr>\<rparr>
                               in map_option (\<lambda>s2. (Returned, emit ''layoutImported'' s2, own hp))
                                    (saveImmediate setItem s1))
                          | _ \<Rightarrow> Some (Threw (Error ''Invalid layout data structure''), s0, own hp)))))"

section \<open>Keyboard navigation\<close>

datatype key_name = ArrowUp | ArrowDown | ArrowLeft | ArrowRight | OtherKey

record key_event =
  key :: key_name
  shiftKey :: bool
  ctrlKey :: bool
  metaKey :: bool

text \<open>
  The block \<^verbatim>\<open>// Movement\<close> of \<^verbatim>\<open>handleKeyDown\<close> for an arrow key: the candidate, its
  validation, \<^verbatim>\<open>positionWidget\<close> and the store call.
\<close>

definition key_move_candidate :: "grid_manager \<Rightarrow> key_event \<Rightarrow> rect \<Rightarrow> int \<times> int" where
  "key_move_candidate gm e c =
     (let delta = (if shiftKey e then 5 else 1)
      in case key e of
           ArrowUp \<Rightarrow> (rx c, max 1 (ry c - delta))
         | ArrowDown \<Rightarrow> (rx c, ry c + delta)
         | ArrowLeft \<Rightarrow> (max 1 (rx c - delta), ry c)
         | ArrowRight \<Rightarrow> (min (gcCols (gridConfig gm) - rw c + 1) (rx c + delta), ry c)
         | OtherKey \<Rightarrow> (rx c, ry c))"

definition key_move ::
  "grid_manager \<Rightarrow> store \<Rightarrow> string \<Rightarrow> key_event \<Rightarrow> rect \<Rightarrow> outcome \<times> grid_manager \<times> store" where
  "key_move gm s widgetId e c =
     (let xy = key_move_candidate gm e c;
          validPos = validatePosition gm (fst xy) (snd xy) (rw c) (rh c) (Some widgetId);
          gm1 = positionWidget gm widgetId (fst validPos) (snd validPos) (rw c) (rh c);
          moved = moveWidget s widgetId (fst validPos) (snd validPos)
      in (fst moved, gm1, snd moved))"

text \<open>
  The block \<^verbatim>\<open>// Resizing\<close>, entered for an arrow key with Ctrl or Meta held; \<open>c\<close> is
  the entry's \<^verbatim>\<open>config\<close> as the movement block left it.
\<close>

definition key_resize_candidate :: "grid_manager \<Rightarrow> key_event \<Rightarrow> rect \<Rightarrow> int \<times> int" where
  "key_resize_candidate gm e c =
     (let delta = (if shiftKey e then 2 else 1)
      in case key e of
           ArrowUp \<Rightarrow> (rw c, max (snd (minWidgetSize (config gm))) (rh c - delta))
         | ArrowDown \<Rightarrow> (rw c, min (snd (maxWidgetSize (config gm))) (rh c + delta))
         | ArrowLeft \<Rightarrow> (max (fst (minWidgetSize (config gm))) (rw c - delta), rh c)
         | ArrowRight \<Rightarrow> (min (fst (maxWidgetSize (config gm))) (rw c + delta), rh c)
         | OtherKey \<Rightarrow> (rw c, rh c))"

definition key_resize ::
  "grid_manager \<Rightarrow> store \<Rightarrow> string \<Rightarrow> key_event \<Rightarrow> rect \<Rightarrow> outcome \<times> grid_manager \<times> store" where
  "key_resize gm s widgetId e c =
     (let wh = key_resize_candidate gm e c;
          gm1 = positionWidget gm widgetId (rx c) (ry c) (fst wh) (snd wh);
          resized = resizeWidget s widgetId (fst wh) (snd wh)
      in (fst resized, gm1, snd resized))"

text \<open>
  \<^verbatim>\<open>handleKeyDown(e)\<close>; \<open>focused\<close> is the widget id of the focused element, if a widget
  has the focus. An error thrown by a store call leaves the handler at once.
\<close>

definition handleKeyDown ::
  "grid_manager \<Rightarrow> store \<Rightarrow> string option \<Rightarrow> key_event \<Rightarrow> outcome \<times> grid_manager \<times> store" where
  "handleKeyDown gm s focused e =
     (case focused of
        None \<Rightarrow> (Returned, gm, s)
      | Some widgetId \<Rightarrow>
          (case map_of (gm_widgets gm) widgetId of
             None \<Rightarrow> (Returned, gm, s)
           | Some c \<Rightarrow>
               if key e = OtherKey then (Returned, gm, s)
               else
                 (case key_move gm s widgetId e c of
                    (Threw err, gm1, s1) \<Rightarrow> (Threw err, gm1, s1)
                  | (Returned, gm1, s1) \<Rightarrow>
                      if ctrlKey e \<or> metaKey e
                      then (case map_of (gm_widgets gm1) widgetId of
                              None \<Rightarrow> (Returned, gm1, s1)
                            | Some c1 \<Rightarrow> key_resize gm1 s1 widgetId e c1)
                      else (Returned, gm1, s1))))"

section \<open>Example configurations\<close>

text \<open>A 12-column grid, 1200 pixels wide, holding one widget \<open>a\<close> at \<open>(1, 1)\<close> of size \<open>3 \<times> 2\<close>.\<close>

definition example_grid :: grid_manager where
  "example_grid =
     \<lparr>gm_widgets = [(''a'', \<lparr>rx = 1, ry = 1, rw = 3, rh = 2\<rparr>)],
      gridConfig = \<lparr>gcCols = 12, gcRowHeight = 64, gcGap = 16, containerWidth = 1200\<rparr>,
      config = default_options\<rparr>"

text \<open>The same widget after \<^verbatim>\<open>updateGrid\<close> has set the grid to six columns.\<close>

definition narrow_grid :: grid_manager where
  "narrow_grid =
     \<lparr>gm_widgets = [(''a'', \<lparr>rx = 1, ry = 1, rw = 3, rh = 2\<rparr>)],
      gridConfig = \<lparr>gcCols = 6, gcRowHeight = 64, gcGap = 16, containerWidth = 600\<rparr>,
      config = default_options\<rparr>"

text \<open>Twelve columns with \<open>a\<close> at \<open>(1, 1)\<close> and \<open>b\<close> next to it at \<open>(4, 1)\<close>, both \<open>3 \<times> 2\<close>.\<close>

definition two_widget_grid :: grid_manager where
  "two_widget_grid =
     \<lparr>gm_widgets = [(''a'', \<lparr>rx = 1, ry = 1, rw = 3, rh = 2\<rparr>),
                    (''b'', \<lparr>rx = 4, ry = 1, rw = 3, rh = 2\<rparr>)],
      gridConfig = \<lparr>gcCols = 12, gcRowHeight = 64, gcGap = 16, containerWidth = 1200\<rparr>,
      config = default_options\<rparr>"

text \<open>
  The widget \<open>a\<close> at \<open>(10, 1)\<close> of size \<open>3 \<times> 2\<close>, touching the right edge of twelve
  columns, in the grid manager and in the store; and the key event Ctrl + ArrowRight.
\<close>

definition edge_grid :: grid_manager where
  "edge_grid =
     \<lparr>gm_widgets = [(''a'', \<lparr>rx = 10, ry = 1, rw = 3, rh = 2\<rparr>)],
      gridConfig = \<lparr>gcCols = 12, gcRowHeight = 64, gcGap = 16, containerWidth = 1200\<rparr>,
      config = default_options\<rparr>"

definition edge_store :: store where
  "edge_store =
     (new_store 0 Absent)\<lparr>state := default_state\<lparr>widgets :=
        [\<lparr>w_id = ''a'', w_type = ''clock'', w_x = 10, w_y = 1, w_w = 3, w_h = 2,
          w_minimized = False, w_config = []\<rparr>]\<rparr>\<rparr>"

definition ctrl_right :: key_event where
  "ctrl_right = \<lparr>key = ArrowRight, shiftKey = False, ctrlKey = True, metaKey = False\<rparr>"

text \<open>A well-formed widget \<open>b\<close>, and the same with column \<open>0\<close>.\<close>

definition widget_b :: widget where
  "widget_b =
     \<lparr>w_id = ''b'', w_type = ''notes'', w_x = 1, w_y = 1, w_w = 3, w_h = 2,
      w_minimized = False, w_config = []\<rparr>"

definition widget_b_column_0 :: widget where
  "widget_b_column_0 = widget_b\<lparr>w_x := 0\<rparr>"

text \<open>Updates that set only \<^verbatim>\<open>x\<close> and \<^verbatim>\<open>y\<close>.\<close>

definition xy_updates :: "int \<Rightarrow> int \<Rightarrow> widget_updates" where
  "xy_updates x y =
     \<lparr>u_id = None, u_type = None, u_x = Some x, u_y = Some y, u_w = None, u_h = None,
      u_minimized = None, u_config = None\<rparr>"

text \<open>A grid configuration of thirty columns.\<close>

definition thirty_columns :: grid_updates where
  "thirty_columns = \<lparr>g_cols = Some 30, g_rowHeight = Some 4, g_gap = Some 1\<rparr>"

text \<open>A source of random suffixes that always gives the same one.\<close>

definition constant_random :: "nat \<Rightarrow> string" where
  "constant_random k = ''r4nd0m''"

text \<open>
  A record of version \<open>0.9.0\<close> without grid and theme, in which the id \<open>b\<close> occurs
  twice.
\<close>

definition old_record :: doc where
  "old_record =
     \<lparr>d_grid = None, d_widgets = Some [widget_b, widget_b], d_theme = None,
      d_version = Some ''0.9.0'', d_extras = no_extras\<rparr>"

text \<open>
  A store with twenty-five widgets \<open>w0\<close>, ..., \<open>w24\<close>; a storage that has room for a
  record of at most twenty widgets, and one that has room for none.
\<close>

definition crowded_store :: store where
  "crowded_store =
     (new_store 0 Absent)\<lparr>state := default_state\<lparr>widgets :=
        map (\<lambda>n. widget_b\<lparr>w_id := ''w'' @ decimal n\<rparr>) [0 ..< 25]\<rparr>\<rparr>"

definition room_for :: "nat \<Rightarrow> doc \<Rightarrow> write_result" where
  "room_for n d =
     (if n < length (case d_widgets d of None \<Rightarrow> [] | Some ws \<Rightarrow> ws)
      then Throws ''QuotaExceededError'' else Stored)"

text \<open>A storage that takes every record.\<close>

definition unlimited :: "doc \<Rightarrow> write_result" where
  "unlimited d = Stored"

text \<open>A store with two widgets that carry the same id, and one with a widget in column \<open>0\<close>.\<close>

definition twin_store :: store where
  "twin_store = (new_store 0 Absent)\<lparr>state := default_state\<lparr>widgets := [widget_b, widget_b]\<rparr>\<rparr>"



definition edited_export :: "store \<Rightarrow> layout" where
  "edited_export s =
     (exportLayout s)\<lparr>l_version := Some ''0.9.0'',
                      l_grid := Some \<lparr>cols = 30, rowHeight = 4, gap = 1\<rparr>\<rparr>"

text \<open>A storage that is full: it refuses every record with \<^verbatim>\<open>QuotaExceededError\<close>.\<close>

definition always_full :: "doc \<Rightarrow> write_result" where
  "always_full d = Throws ''QuotaExceededError''"

section \<open>Placement validation\<close>

lemma find_append_case:
  "List.find P (xs @ ys) = (case List.find P xs of Some a \<Rightarrow> Some a | None \<Rightarrow> List.find P ys)"
  by (induction xs) auto

text \<open>The inner loop returns the first free cell of its row, from \<open>testX\<close> on.\<close>

lemma scan_cols_find:
  "scan_cols cs w h occ ty tx =
     List.find (\<lambda>p. \<not> hasOverlap (fst p) (snd p) w h occ)
       (map (\<lambda>col. (col, ty)) [tx .. cs - w + 1])"
proof (induction cs w h occ ty tx rule: scan_cols.induct)
  case (1 cs w h occ ty tx)
  show ?case
  proof (cases "tx \<le> cs - w + 1")
    case True
    then have u: "[tx .. cs - w + 1] = tx # [tx + 1 .. cs - w + 1]"
      by (rule upto_rec1)
    show ?thesis
      using True 1 by (subst scan_cols.simps) (simp add: u)
  next
    case False
    then show ?thesis by (subst scan_cols.simps) simp
  qed
qed

text \<open>The outer loop returns the first free cell of the rows from \<open>testY\<close> to \<open>y + 19\<close>.\<close>

lemma scan_rows_find:
  "scan_rows cs w h occ x y ty =
     List.find (\<lambda>p. \<not> hasOverlap (fst p) (snd p) w h occ)
       (concat (map (\<lambda>row. map (\<lambda>col. (col, row)) [x .. cs - w + 1]) [ty .. y + 19]))"
proof (induction cs w h occ x y ty rule: scan_rows.induct)
  case (1 cs w h occ x y ty)
  show ?case
  proof (cases "ty < y + 20")
    case True
    then have u: "[ty .. y + 19] = ty # [ty + 1 .. y + 19]"
      by (simp add: upto_rec1)
    show ?thesis
      using True 1
      by (subst scan_rows.simps)
         (simp add: u find_append_case scan_cols_find split: option.splits)
  next
    case False
    then show ?thesis by (subst scan_rows.simps) simp
  qed
qed

lemma validatePosition_find:
  "validatePosition gm x0 y0 w h excludeId =
     (let cs = gcCols (gridConfig gm); x = max 1 (min (cs - w + 1) x0); y = max 1 y0
      in if preventOverlap (config gm)
         then (case List.find (cell_free gm w h excludeId) (search_window cs w x y) of
                 Some p \<Rightarrow> p | None \<Rightarrow> (x, y))
         else (x, y))"
proof -
  have "cell_free gm w h excludeId =
          (\<lambda>p. \<not> hasOverlap (fst p) (snd p) w h (getOccupiedCells gm excludeId))"
    by (rule ext) (simp add: cell_free_def)
  then show ?thesis
    by (simp add: validatePosition_def scan_rows_find search_window_def Let_def)
qed

lemma in_search_window:
  "p \<in> set (search_window cs w x y) \<longleftrightarrow>
     x \<le> fst p \<and> fst p \<le> cs - w + 1 \<and> y \<le> snd p \<and> snd p \<le> y + 19"
  by (cases p) (auto simp: search_window_def image_iff)

lemma validatePosition_range:
  assumes "validatePosition gm x0 y0 w h excludeId = r"
  shows "r = (max 1 (min (gcCols (gridConfig gm) - w + 1) x0), max 1 y0) \<or>
     (max 1 (min (gcCols (gridConfig gm) - w + 1) x0) \<le> fst r \<and>
      fst r \<le> gcCols (gridConfig gm) - w + 1 \<and> max 1 y0 \<le> snd r \<and> snd r \<le> max 1 y0 + 19)"
proof (cases "preventOverlap (config gm)")
  case False
  then show ?thesis using assms by (simp add: validatePosition_find Let_def)
next
  case True
  let ?win = "search_window (gcCols (gridConfig gm)) w
                (max 1 (min (gcCols (gridConfig gm) - w + 1) x0)) (max 1 y0)"
  show ?thesis
  proof (cases "List.find (cell_free gm w h excludeId) ?win")
    case None
    then show ?thesis using assms True by (simp add: validatePosition_find Let_def)
  next
    case (Some p)
    then have "p \<in> set ?win" by (auto simp: find_Some_iff)
    moreover have "r = p" using assms True Some by (simp add: validatePosition_find Let_def)
    ultimately show ?thesis by (simp add: in_search_window)
  qed
qed

lemma validatePosition_lower:
  "1 \<le> fst (validatePosition gm x0 y0 w h excludeId) \<and>
   1 \<le> snd (validatePosition gm x0 y0 w h excludeId)"
  using validatePosition_range [OF refl, of gm x0 y0 w h excludeId] by auto

lemma validatePosition_upper:
  "w \<le> gcCols (gridConfig gm) \<Longrightarrow>
   fst (validatePosition gm x0 y0 w h excludeId) \<le> gcCols (gridConfig gm) - w + 1"
  using validatePosition_range [OF refl, of gm x0 y0 w h excludeId] by auto

lemma validatePosition_free_start:
  assumes "preventOverlap (config gm)" 
    and "1 \<le> x0" and "x0 \<le> gcCols (gridConfig gm) - w + 1" and "1 \<le> y0"
    and "cell_free gm w h excludeId (x0, y0)"
  shows "validatePosition gm x0 y0 w h excludeId = (x0, y0)"
proof -
  have x: "max 1 (min (gcCols (gridConfig gm) - w + 1) x0) = x0" and y: "max 1 y0 = y0"
    using assms by auto
  have "x0 \<le> gcCols (gridConfig gm) - w + 1" using assms by simp
  then have u: "[x0 .. gcCols (gridConfig gm) - w + 1] = x0 # [x0 + 1 .. gcCols (gridConfig gm) - w + 1]"
    by (rule upto_rec1)
  have v: "[y0 .. y0 + 19] = y0 # [y0 + 1 .. y0 + 19]"
    by (rule upto_rec1) simp
  show ?thesis
    unfolding validatePosition_find Let_def x y
    using assms(1,5) by (simp add: search_window_def u v)
qed


text \<open>
  C1, as stated, fails: in a grid of six columns a candidate of width eight is put at
  column \<open>1\<close> and reaches column \<open>8\<close>.
\<close>

theorem validatePosition_bound_counterexample:
  "\<not> (fst (validatePosition narrow_grid 1 1 8 2 (Some ''a'')) + 8 - 1
        \<le> gcCols (gridConfig narrow_grid))"
  by code_simp

text \<open>
  C1, amended by \<open>w \<le> cols\<close>: for every candidate \<open>(x0, y0, w, h)\<close> with \<open>w, h \<ge> 1\<close> and
  \<open>w \<le> cols\<close> and every excluded id, \<^const>\<open>validatePosition\<close> clamps \<open>x0\<close> into
  \<open>[1, cols - w + 1]\<close> and \<open>y0\<close> to at least \<open>1\<close>; with overlap prevention on, its result
  is the first cell, in the row-major order of the window of rows \<open>y .. y + 19\<close> and
  columns \<open>x .. cols - w + 1\<close>, whose \<open>w \<times> h\<close> rectangle meets no cell occupied by
  another widget. The result satisfies \<open>x + w - 1 \<le> cols\<close>; it is free of overlap
  whenever the window has a free cell; when the window has none, it is the clamped
  \<open>(x, y)\<close>.
\<close>

theorem validatePosition_bounded_search:
  assumes "1 \<le> w" and "1 \<le> h" and "w \<le> gcCols (gridConfig gm)"
  shows "let cs = gcCols (gridConfig gm);
             x = max 1 (min (cs - w + 1) x0);
             y = max 1 y0;
             window = search_window cs w x y;
             r = validatePosition gm x0 y0 w h excludeId
         in 1 \<le> x \<and> x \<le> cs - w + 1 \<and> 1 \<le> y \<and>
            r = (if preventOverlap (config gm)
                 then (case List.find (cell_free gm w h excludeId) window of
                         Some p \<Rightarrow> p | None \<Rightarrow> (x, y))
                 else (x, y)) \<and>
            1 \<le> fst r \<and> fst r + w - 1 \<le> cs \<and> 1 \<le> snd r \<and>
            (preventOverlap (config gm) \<and> (\<exists>p \<in> set window. cell_free gm w h excludeId p) \<longrightarrow>
               cell_free gm w h excludeId r \<and>
               (\<exists>i < length window. window ! i = r \<and>
                    (\<forall>j < i. \<not> cell_free gm w h excludeId (window ! j)))) \<and>
            (\<not> (\<exists>p \<in> set window. cell_free gm w h excludeId p) \<longrightarrow> r = (x, y))"
proof -
  define cs where "cs = gcCols (gridConfig gm)"
  define x where "x = max 1 (min (cs - w + 1) x0)"
  define y where "y = max 1 y0"
  define window where "window = search_window cs w x y"
  define r where "r = validatePosition gm x0 y0 w h excludeId"
  define free where "free = cell_free gm w h excludeId"
  have clamp: "1 \<le> x" "x \<le> cs - w + 1" "1 \<le> y"
    using assms by (auto simp: x_def y_def cs_def)
  have r_eq: "r = (if preventOverlap (config gm)
                   then (case List.find free window of Some p \<Rightarrow> p | None \<Rightarrow> (x, y))
                   else (x, y))"
    unfolding r_def validatePosition_find Let_def cs_def x_def y_def window_def free_def ..
  have in_window: "(x, y) \<in> set window"
    using clamp by (simp add: window_def in_search_window)
  have "r = (x, y) \<or> r \<in> set window"
    by (auto simp: r_eq find_Some_iff split: option.splits)
  then have r_in: "r \<in> set window"
    using in_window by auto
  then have bounds: "1 \<le> fst r" "fst r + w - 1 \<le> cs" "1 \<le> snd r"
    using clamp by (auto simp: window_def in_search_window)
  have found: "cell_free gm w h excludeId r \<and>
      (\<exists>i < length window. window ! i = r \<and> (\<forall>j < i. \<not> free (window ! j)))"
    if "preventOverlap (config gm)" and "\<exists>p \<in> set window. free p"
  proof -
    from that(2) obtain p where "List.find free window = Some p"
      by (cases "List.find free window") (auto simp: find_None_iff)
    moreover from this that(1) have "r = p" by (simp add: r_eq)
    ultimately show ?thesis
      by (auto simp: find_Some_iff free_def)
  qed
  have exhausted: "r = (x, y)" if "\<not> (\<exists>p \<in> set window. free p)"
  proof -
    from that have "List.find free window = None"
      by (simp add: find_None_iff)
    then show ?thesis by (simp add: r_eq)
  qed
  show ?thesis
    unfolding Let_def
    using clamp r_eq bounds found exhausted
    unfolding cs_def [symmetric] x_def [symmetric] y_def [symmetric] window_def [symmetric]
      r_def [symmetric] free_def
    by blast
qed

text \<open>
  The theorem at the scenario of the specification: with \<open>a\<close> at \<open>(1, 1, 3, 2)\<close> in
  twelve columns, a second widget aimed at \<open>(1, 1, 3, 2)\<close> goes to \<open>(4, 1)\<close>.
\<close>

theorem validatePosition_bounded_search_witness:
  "(1::int) \<le> 3 \<and> (1::int) \<le> 2 \<and> 3 \<le> gcCols (gridConfig example_grid) \<and>
   validatePosition example_grid 1 1 3 2 (Some ''b'') = (4, 1) \<and>
   fst (validatePosition example_grid 1 1 3 2 (Some ''b'')) + 3 - 1 \<le> gcCols (gridConfig example_grid) \<and>
   cell_free example_grid 3 2 (Some ''b'') (validatePosition example_grid 1 1 3 2 (Some ''b''))"
proof -
  have h: "(1::int) \<le> 3" "(1::int) \<le> 2" "3 \<le> gcCols (gridConfig example_grid)"
    by (simp_all add: example_grid_def)
  have v: "validatePosition example_grid 1 1 3 2 (Some ''b'') = (4, 1)"
    by code_simp
  have f: "cell_free example_grid 3 2 (Some ''b'') (4, 1)"
    by code_simp
  note b = validatePosition_bounded_search [OF h, of 1 1 "Some ''b''", unfolded Let_def]
  from b have "fst (validatePosition example_grid 1 1 3 2 (Some ''b'')) + 3 - 1
      \<le> gcCols (gridConfig example_grid)"
    by (elim conjE)
  then show ?thesis
    using h v f by simp
qed

section \<open>Resize sessions\<close>

text \<open>
  C9, as stated, fails: in the six-column grid, dragging the \<open>e\<close> handle of the widget
  at \<open>(1, 1, 3, 2)\<close> five columns to the right gives \<open>(1, 1, 8, 2)\<close>, and \<open>x = 1\<close> is not
  at most \<open>cols - w + 1 = - 1\<close>.
\<close>

theorem resize_result_counterexample:
  "handleResizeMove narrow_grid ''a'' Dir_e 5 0 \<lparr>rx = 1, ry = 1, rw = 3, rh = 2\<rparr>
     = \<lparr>rx = 1, ry = 1, rw = 8, rh = 2\<rparr> \<and>
   \<not> (rx \<lparr>rx = 1, ry = 1, rw = 8, rh = 2\<rparr>
        \<le> gcCols (gridConfig narrow_grid) - rw \<lparr>rx = 1, ry = 1, rw = 8, rh = 2\<rparr> + 1)"
  by code_simp

lemma validateResize_default:
  assumes "config gm = default_options"
  shows "validateResize gm result widgetId =
     (let w = max 1 (min 12 (rw result)); h = max 1 (min 8 (rh result));
          p = validatePosition gm (min (gcCols (gridConfig gm) - w + 1) (max 1 (rx result)))
                (max 1 (ry result)) w h (Some widgetId)
      in \<lparr>rx = fst p, ry = snd p, rw = w, rh = h\<rparr>)"
  by (simp add: validateResize_def assms default_options_def Let_def)

text \<open>
  C9, amended: with the constructor's options (minimum \<open>1 \<times> 1\<close>, maximum \<open>12 \<times> 8\<close>,
  overlap prevention on) and a pointer delta that rounds to finite grid units,
  \<^const>\<open>validateResize\<close> clamps the candidate size to \<open>w = max 1 (min 12 w\<^sub>0)\<close> and
  \<open>h = max 1 (min 8 h\<^sub>0)\<close>, clamps the candidate position to \<open>x \<ge> 1\<close>, \<open>y \<ge> 1\<close>,
  \<open>x \<le> cols - w + 1\<close>, and then applies the bounded overlap search of drag
  (\<^const>\<open>validatePosition\<close>, with the resized widget itself excluded): the result is
  the first free cell of the window of rows \<open>y .. y + 19\<close> and columns
  \<open>x .. cols - w + 1\<close> in row-major order, and the clamped position when the window has
  none. The rectangle returned (the one a pointer move of a resize session shows and the
  end of the session commits) so has \<open>1 \<le> w \<le> 12\<close>, \<open>1 \<le> h \<le> 8\<close>, \<open>y \<ge> 1\<close> and
  \<open>x \<ge> 1\<close>, and \<open>x \<le> cols - w + 1\<close> whenever \<open>w \<le> cols\<close> (so always in a grid of twelve
  or more columns). Resizing the widget at \<open>(1, 1, 3, 2)\<close> by the \<open>se\<close> handle by \<open>+2\<close>
  columns and \<open>+1\<close> row has the candidate \<open>(1, 1, 5, 3)\<close>, which is the result provided
  the grid has at least five columns and no other widget lies in that rectangle.
\<close>

theorem resize_result_bounds:
  assumes "config gm = default_options"
  shows "(let cs = gcCols (gridConfig gm);
              w = max 1 (min 12 (rw result));
              h = max 1 (min 8 (rh result));
              x = max 1 (min (cs - w + 1) (max 1 (rx result)));
              y = max 1 (ry result);
              r = validateResize gm result widgetId
          in rw r = w \<and> rh r = h \<and>
             (rx r, ry r) =
               validatePosition gm (min (cs - w + 1) (max 1 (rx result))) y w h (Some widgetId) \<and>
             (rx r, ry r) =
               (case List.find (cell_free gm w h (Some widgetId)) (search_window cs w x y) of
                  Some p \<Rightarrow> p | None \<Rightarrow> (x, y)) \<and>
             1 \<le> rw r \<and> rw r \<le> 12 \<and> 1 \<le> rh r \<and> rh r \<le> 8 \<and> 1 \<le> ry r \<and> 1 \<le> rx r \<and>
             (rw r \<le> cs \<longrightarrow> rx r \<le> cs - rw r + 1)) \<and>
         handleResizeMove gm widgetId dir deltaGridX deltaGridY original =
           validateResize gm
             (calculateResize dir deltaGridX deltaGridY
                (rx original) (ry original) (rw original) (rh original)) widgetId \<and>
         calculateResize Dir_se 2 1 1 1 3 2 = \<lparr>rx = 1, ry = 1, rw = 5, rh = 3\<rparr> \<and>
         (5 \<le> gcCols (gridConfig gm) \<and> cell_free gm 5 3 (Some widgetId) (1, 1) \<longrightarrow>
          handleResizeMove gm widgetId Dir_se 2 1 \<lparr>rx = 1, ry = 1, rw = 3, rh = 2\<rparr>
            = \<lparr>rx = 1, ry = 1, rw = 5, rh = 3\<rparr>)"
proof (intro conjI impI)
  define cs where "cs = gcCols (gridConfig gm)"
  define w where "w = max 1 (min 12 (rw result))"
  define h where "h = max 1 (min 8 (rh result))"
  define x where "x = max 1 (min (cs - w + 1) (max 1 (rx result)))"
  define y where "y = max 1 (ry result)"
  define p where "p = validatePosition gm (min (cs - w + 1) (max 1 (rx result))) y w h (Some widgetId)"
  define r where "r = validateResize gm result widgetId"
  have r_eq: "r = \<lparr>rx = fst p, ry = snd p, rw = w, rh = h\<rparr>"
    unfolding r_def p_def cs_def w_def h_def y_def validateResize_default [OF assms] Let_def ..
  have po: "preventOverlap (config gm)"
    by (simp add: assms default_options_def)
  have cx: "max 1 (min (cs - w + 1) (min (cs - w + 1) (max 1 (rx result)))) = x"
    and cy: "max 1 y = y"
    by (simp_all add: x_def y_def)
  have p_find: "p = (case List.find (cell_free gm w h (Some widgetId)) (search_window cs w x y) of
                       Some q \<Rightarrow> q | None \<Rightarrow> (x, y))"
    unfolding p_def validatePosition_find Let_def cs_def [symmetric] cx cy
    using po by simp
  have lower: "1 \<le> fst p" "1 \<le> snd p"
    using validatePosition_lower [of gm _ y w h "Some widgetId"] by (simp_all add: p_def)
  have upper: "fst p \<le> cs - w + 1" if "w \<le> cs"
    using that validatePosition_upper [of w gm _ y h "Some widgetId"] by (simp add: p_def cs_def)
  have size: "1 \<le> w" "w \<le> 12" "1 \<le> h" "h \<le> 8"
    by (simp_all add: w_def h_def)
  have "rw r = w \<and> rh r = h \<and> (rx r, ry r) = p \<and>
        (rx r, ry r) = (case List.find (cell_free gm w h (Some widgetId)) (search_window cs w x y) of
                          Some q \<Rightarrow> q | None \<Rightarrow> (x, y)) \<and>
        1 \<le> rw r \<and> rw r \<le> 12 \<and> 1 \<le> rh r \<and> rh r \<le> 8 \<and> 1 \<le> ry r \<and> 1 \<le> rx r \<and>
        (rw r \<le> cs \<longrightarrow> rx r \<le> cs - rw r + 1)"
    using lower upper size p_find by (simp add: r_eq)
  then show "let cs = gcCols (gridConfig gm);
              w = max 1 (min 12 (rw result));
              h = max 1 (min 8 (rh result));
              x = max 1 (min (cs - w + 1) (max 1 (rx result)));
              y = max 1 (ry result);
              r = validateResize gm result widgetId
          in rw r = w \<and> rh r = h \<and>
             (rx r, ry r) =
               validatePosition gm (min (cs - w + 1) (max 1 (rx result))) y w h (Some widgetId) \<and>
             (rx r, ry r) =
               (case List.find (cell_free gm w h (Some widgetId)) (search_window cs w x y) of
                  Some p \<Rightarrow> p | None \<Rightarrow> (x, y)) \<and>
             1 \<le> rw r \<and> rw r \<le> 12 \<and> 1 \<le> rh r \<and> rh r \<le> 8 \<and> 1 \<le> ry r \<and> 1 \<le> rx r \<and>
             (rw r \<le> cs \<longrightarrow> rx r \<le> cs - rw r + 1)"
    unfolding Let_def cs_def w_def h_def x_def y_def p_def r_def .
next
  show "handleResizeMove gm widgetId dir deltaGridX deltaGridY original =
           validateResize gm
             (calculateResize dir deltaGridX deltaGridY
                (rx original) (ry original) (rw original) (rh original)) widgetId"
    by (simp add: handleResizeMove_def)
next
  show calc: "calculateResize Dir_se 2 1 1 1 3 2 = \<lparr>rx = 1, ry = 1, rw = 5, rh = 3\<rparr>"
    by (simp add: calculateResize_def)
  assume a: "5 \<le> gcCols (gridConfig gm) \<and> cell_free gm 5 3 (Some widgetId) (1, 1)"
  have "preventOverlap (config gm)"
    by (simp add: assms default_options_def)
  then have "validatePosition gm 1 1 5 3 (Some widgetId) = (1, 1)"
    using a by (intro validatePosition_free_start) auto
  moreover have "min (gcCols (gridConfig gm) - 5 + 1) 1 = (1::int)"
    using a by auto
  ultimately have "validateResize gm \<lparr>rx = 1, ry = 1, rw = 5, rh = 3\<rparr> widgetId
      = \<lparr>rx = 1, ry = 1, rw = 5, rh = 3\<rparr>"
    by (simp add: validateResize_default [OF assms] Let_def)
  then show "handleResizeMove gm widgetId Dir_se 2 1 \<lparr>rx = 1, ry = 1, rw = 3, rh = 2\<rparr>
      = \<lparr>rx = 1, ry = 1, rw = 5, rh = 3\<rparr>"
    using calc by (simp add: handleResizeMove_def)
qed


text \<open>
  The theorem in the 12-column examples: the scenario of the specification; a candidate
  of size \<open>20 \<times> 0\<close>; and, with a second widget at \<open>(4, 1)\<close>, the widget at \<open>(1, 1, 3, 2)\<close>
  widened by two columns, which the search moves to column 7.
\<close>

theorem resize_result_bounds_witness:
  "config example_grid = default_options \<and> config two_widget_grid = default_options \<and>
   handleResizeMove example_grid ''a'' Dir_se 2 1 \<lparr>rx = 1, ry = 1, rw = 3, rh = 2\<rparr>
     = \<lparr>rx = 1, ry = 1, rw = 5, rh = 3\<rparr> \<and>
   handleResizeMove two_widget_grid ''a'' Dir_e 2 0 \<lparr>rx = 1, ry = 1, rw = 3, rh = 2\<rparr>
     = \<lparr>rx = 7, ry = 1, rw = 5, rh = 2\<rparr> \<and>
   rw (validateResize example_grid \<lparr>rx = 1, ry = 1, rw = 20, rh = 0\<rparr> ''a'') = 12 \<and>
   rh (validateResize example_grid \<lparr>rx = 1, ry = 1, rw = 20, rh = 0\<rparr> ''a'') = 1"
proof -
  have c: "config example_grid = default_options" "config two_widget_grid = default_options"
    by (simp_all add: example_grid_def two_widget_grid_def)
  have f: "cell_free example_grid 5 3 (Some ''a'') (1, 1)"
    by code_simp
  have g: "5 \<le> gcCols (gridConfig example_grid)"
    by (simp add: example_grid_def)
  note b = resize_result_bounds [OF c(1), of "\<lparr>rx = 1, ry = 1, rw = 20, rh = 0\<rparr>" "''a''",
      unfolded Let_def]
  from b f g have scenario:
    "handleResizeMove example_grid ''a'' Dir_se 2 1 \<lparr>rx = 1, ry = 1, rw = 3, rh = 2\<rparr>
       = \<lparr>rx = 1, ry = 1, rw = 5, rh = 3\<rparr>"
    by blast
  from b have size:
    "rw (validateResize example_grid \<lparr>rx = 1, ry = 1, rw = 20, rh = 0\<rparr> ''a'') = 12"
    "rh (validateResize example_grid \<lparr>rx = 1, ry = 1, rw = 20, rh = 0\<rparr> ''a'') = 1"
    by simp_all
  have calc: "calculateResize Dir_e 2 0 1 1 3 2 = \<lparr>rx = 1, ry = 1, rw = 5, rh = 2\<rparr>"
    by (simp add: calculateResize_def)
  have found: "List.find (cell_free two_widget_grid 5 2 (Some ''a''))
                 (search_window (gcCols (gridConfig two_widget_grid)) 5 1 1) = Some (7, 1)"
    by code_simp
  have clamp: "max 1 (min (gcCols (gridConfig two_widget_grid) - 5 + 1) 1) = (1::int)"
    by (simp add: two_widget_grid_def)
  note m = resize_result_bounds [OF c(2), of "\<lparr>rx = 1, ry = 1, rw = 5, rh = 2\<rparr>" "''a''"
      Dir_e 2 0 "\<lparr>rx = 1, ry = 1, rw = 3, rh = 2\<rparr>", unfolded Let_def]
  from m have "(rx (validateResize two_widget_grid \<lparr>rx = 1, ry = 1, rw = 5, rh = 2\<rparr> ''a''),
                ry (validateResize two_widget_grid \<lparr>rx = 1, ry = 1, rw = 5, rh = 2\<rparr> ''a'')) = (7, 1)"
    and "rw (validateResize two_widget_grid \<lparr>rx = 1, ry = 1, rw = 5, rh = 2\<rparr> ''a'') = 5"
    and "rh (validateResize two_widget_grid \<lparr>rx = 1, ry = 1, rw = 5, rh = 2\<rparr> ''a'') = 2"
    using found clamp by simp_all
  then have "validateResize two_widget_grid \<lparr>rx = 1, ry = 1, rw = 5, rh = 2\<rparr> ''a''
      = \<lparr>rx = 7, ry = 1, rw = 5, rh = 2\<rparr>"
    by (cases "validateResize two_widget_grid \<lparr>rx = 1, ry = 1, rw = 5, rh = 2\<rparr> ''a''") simp
  moreover from m have "handleResizeMove two_widget_grid ''a'' Dir_e 2 0 \<lparr>rx = 1, ry = 1, rw = 3, rh = 2\<rparr>
      = validateResize two_widget_grid
          (calculateResize Dir_e 2 0 1 1 3 2) ''a''"
    by simp
  ultimately have moved:
    "handleResizeMove two_widget_grid ''a'' Dir_e 2 0 \<lparr>rx = 1, ry = 1, rw = 3, rh = 2\<rparr>
       = \<lparr>rx = 7, ry = 1, rw = 5, rh = 2\<rparr>"
    by (simp add: calc)
  show ?thesis using c scenario moved size by simp
qed

section \<open>Keyboard navigation\<close>

text \<open>
  C3 at Ctrl + ArrowRight on the widget at \<open>(10, 1, 3, 2)\<close> in twelve columns: the
  handler runs the movement block and then the resizing block, so two store calls are
  made (\<^verbatim>\<open>moveWidget\<close>, then \<^verbatim>\<open>resizeWidget\<close>); the widget ends as \<open>(10, 1, 4, 2)\<close>,
  reaching column \<open>13\<close>, whereas \<^const>\<open>validateResize\<close> on the same candidate gives
  \<open>(9, 1, 4, 2)\<close>.
\<close>

theorem handleKeyDown_ctrl_arrow_example:
  "fst (handleKeyDown edge_grid edge_store (Some ''a'') ctrl_right) = Returned \<and>
   map_of (gm_widgets (fst (snd (handleKeyDown edge_grid edge_store (Some ''a'') ctrl_right)))) ''a''
     = Some \<lparr>rx = 10, ry = 1, rw = 4, rh = 2\<rparr> \<and>
   emitted (snd (snd (handleKeyDown edge_grid edge_store (Some ''a'') ctrl_right)))
     = [''widgetMoved'', ''widgetResized''] \<and>
   validateResize edge_grid \<lparr>rx = 10, ry = 1, rw = 4, rh = 2\<rparr> ''a''
     = \<lparr>rx = 9, ry = 1, rw = 4, rh = 2\<rparr>"
  by code_simp

section \<open>Store mutations\<close>

lemma findIndex_Some_iff:
  "findIndex P xs = Some k \<longleftrightarrow> k < length xs \<and> P (xs ! k) \<and> (\<forall>j < k. \<not> P (xs ! j))"
proof (induction xs arbitrary: k)
  case Nil
  then show ?case by simp
next
  case (Cons x xs)
  show ?case
  proof (cases "P x")
    case True
    then show ?thesis by (cases k) auto
  next
    case False
    show ?thesis
    proof (cases k)
      case 0
      then show ?thesis using False by auto
    next
      case (Suc n)
      have "(\<forall>j < Suc n. \<not> P ((x # xs) ! j)) \<longleftrightarrow> (\<forall>j < n. \<not> P (xs ! j))"
        using False by (auto simp: less_Suc_eq_0_disj)
      then show ?thesis
        using False Suc Cons.IH [of n] by auto
    qed
  qed
qed

lemma findIndex_None_iff:
  "findIndex P xs = None \<longleftrightarrow> (\<forall>x \<in> set xs. \<not> P x)"
  by (induction xs) auto

lemma findIndex_update:
  assumes "findIndex P xs = Some k" and "P y"
  shows "findIndex P (xs[k := y]) = Some k"
  using assms by (auto simp: findIndex_Some_iff nth_list_update)

lemma state_set_widgets:
  "state (emit ev (save (set_widgets ws s))) = (state s)\<lparr>widgets := ws\<rparr>"
  by (simp add: emit_def save_def set_widgets_def Let_def)

text \<open>
  C10: for every store and every id that occurs in the widget list,
  \<^const>\<open>toggleWidgetMinimized\<close> returns, negates the \<^verbatim>\<open>minimized\<close> flag of the first
  widget with that id and changes nothing else of it, leaves every other widget, the
  grid, the theme, the version and the remaining keys as they are; a second call
  restores the state.
\<close>

theorem toggleWidgetMinimized_flips:
  assumes "i \<in> w_id ` set (widgets (state s))"
  shows "let ws = widgets (state s);
             r = toggleWidgetMinimized s i;
             st' = state (snd r)
         in fst r = Returned \<and>
            (\<exists>k < length ws. w_id (ws ! k) = i \<and> (\<forall>j < k. w_id (ws ! j) \<noteq> i) \<and>
               widgets st' = ws[k := (ws ! k)\<lparr>w_minimized := \<not> w_minimized (ws ! k)\<rparr>]) \<and>
            grid st' = grid (state s) \<and> theme st' = theme (state s) \<and>
            version st' = version (state s) \<and> extras st' = extras (state s) \<and>
            fst (toggleWidgetMinimized (snd r) i) = Returned \<and>
            state (snd (toggleWidgetMinimized (snd r) i)) = state s"
proof -
  define ws where "ws = widgets (state s)"
  from assms have "findIndex (\<lambda>w. w_id w = i) ws \<noteq> None"
    by (auto simp: findIndex_None_iff ws_def)
  then obtain k where k: "findIndex (\<lambda>w. w_id w = i) ws = Some k"
    by auto
  then have kp: "k < length ws" "w_id (ws ! k) = i" "\<forall>j < k. w_id (ws ! j) \<noteq> i"
    by (auto simp: findIndex_Some_iff)
  define flipped where "flipped = (ws ! k)\<lparr>w_minimized := \<not> w_minimized (ws ! k)\<rparr>"
  define s1 where "s1 = snd (toggleWidgetMinimized s i)"
  have r1: "toggleWidgetMinimized s i
      = (Returned, emit ''widgetToggled'' (save (set_widgets (ws[k := flipped]) s)))"
    using k by (simp add: toggleWidgetMinimized_def ws_def flipped_def)
  then have st1: "state s1 = (state s)\<lparr>widgets := ws[k := flipped]\<rparr>"
    by (simp add: s1_def state_set_widgets)
  have "findIndex (\<lambda>w. w_id w = i) (ws[k := flipped]) = Some k"
    using k kp by (intro findIndex_update) (simp_all add: flipped_def)
  then have r2: "toggleWidgetMinimized s1 i
      = (Returned, emit ''widgetToggled'' (save (set_widgets (ws[k := ws ! k]) s1)))"
    using kp by (simp add: toggleWidgetMinimized_def st1 flipped_def)
  have "state (snd (toggleWidgetMinimized s1 i)) = state s"
    by (simp add: r2 st1 ws_def state_set_widgets)
  then show ?thesis
    unfolding Let_def ws_def [symmetric] s1_def [symmetric]
    using r1 r2 kp st1 by (auto simp: flipped_def s1_def state_set_widgets)
qed


text \<open>The theorem for the widget \<open>a\<close> of the example store.\<close>

theorem toggleWidgetMinimized_flips_witness:
  "''a'' \<in> w_id ` set (widgets (state edge_store)) \<and>
   fst (toggleWidgetMinimized edge_store ''a'') = Returned \<and>
   map w_minimized (widgets (state (snd (toggleWidgetMinimized edge_store ''a'')))) = [True] \<and>
   state (snd (toggleWidgetMinimized (snd (toggleWidgetMinimized edge_store ''a'')) ''a''))
     = state edge_store"
proof -
  have h: "''a'' \<in> w_id ` set (widgets (state edge_store))"
    by (simp add: edge_store_def new_store_def default_state_def)
  have m: "map w_minimized (widgets (state (snd (toggleWidgetMinimized edge_store ''a'')))) = [True]"
    by code_simp
  from toggleWidgetMinimized_flips [OF h, unfolded Let_def]
  have "fst (toggleWidgetMinimized edge_store ''a'') = Returned"
    and "state (snd (toggleWidgetMinimized (snd (toggleWidgetMinimized edge_store ''a'')) ''a''))
           = state edge_store"
    by blast+
  then show ?thesis using h m by simp
qed

lemma generateWidgetId_nonempty: "generateWidgetId now random type \<noteq> []"
  by (simp add: generateWidgetId_def)

text \<open>
  C2, as stated, fails: \<^const>\<open>updateGrid\<close> with thirty columns, a grid configuration
  that \<^const>\<open>validateState\<close> rejects, does not throw; it stores \<open>24\<close> columns.
\<close>

theorem updateGrid_clamps_counterexample:
  "\<not> validateState ((doc_of (state edge_store))\<lparr>d_grid := Some \<lparr>cols = 30, rowHeight = 4, gap = 1\<rparr>\<rparr>) \<and>
   fst (updateGrid edge_store thirty_columns) = Returned \<and>
   grid (state (snd (updateGrid edge_store thirty_columns)))
     = \<lparr>cols = 24, rowHeight = 4, gap = 1\<rparr> \<and>
   state (snd (updateGrid edge_store thirty_columns))
     \<noteq> state edge_store"
  by code_simp

text \<open>
  \<^const>\<open>moveWidget\<close> and \<^const>\<open>resizeWidget\<close> store the numbers they are given: the
  placement \<open>(0, - 5)\<close>, which \<^const>\<open>updateWidget\<close> refuses, is accepted by
  \<^const>\<open>moveWidget\<close>.
\<close>

lemma moveWidget_unvalidated_example:
  "fst (moveWidget edge_store ''a'' 0 (- 5)) = Returned \<and>
   \<not> list_all validateWidget (widgets (state (snd (moveWidget edge_store ''a'' 0 (- 5))))) \<and>
   fst (updateWidget edge_store ''a'' (xy_updates 0 (- 5))) = Threw (Error ''Invalid widget update'')"
  by code_simp

text \<open>
  C2, amended: \<^const>\<open>addWidget\<close> and \<^const>\<open>updateWidget\<close> validate the resulting widget
  before they change anything, throw on an invalid one, and change the list only with a
  valid one: \<^const>\<open>addWidget\<close> appends the widget it was given, under a generated id if
  its id is taken, and \<^const>\<open>updateWidget\<close> replaces the widget by the merge of it and
  the updates; neither changes another key of the state. \<^const>\<open>updateWidget\<close>,
  \<^const>\<open>removeWidget\<close>, \<^const>\<open>moveWidget\<close>, \<^const>\<open>resizeWidget\<close> and
  \<^const>\<open>toggleWidgetMinimized\<close> throw on an id that is not in the widget list;
  \<^const>\<open>setTheme\<close> throws on a value that is not one of the four themes and stores any
  of the four; a call that throws leaves the whole store as it was. \<^const>\<open>updateGrid\<close>
  never throws: it replaces a missing or zero field by the current value, clamps \<open>cols\<close>
  into \<open>[1, 24]\<close>, \<open>rowHeight\<close> to at least \<open>1\<close> and \<open>gap\<close> to at least \<open>0\<close>, and always
  stores the clamped grid, so that the grid it stores has \<open>1 \<le> cols \<le> 24\<close>,
  \<open>rowHeight \<ge> 1\<close> and \<open>gap \<ge> 0\<close>. (What \<^const>\<open>moveWidget\<close> and \<^const>\<open>resizeWidget\<close> do
  with the numbers of a known widget is not part of the statement.)
\<close>

theorem mutations_validate:
  "(\<not> validateWidget wd \<longrightarrow>
      addWidget random s wd = (Threw (Error ''Invalid widget configuration''), s)) \<and>
   (validateWidget wd \<longrightarrow>
      (let wd' = (if w_id wd \<in> w_id ` set (widgets (state s))
                  then wd\<lparr>w_id := generateWidgetId (clock s) random (w_type wd)\<rparr>
                  else wd)
       in fst (addWidget random s wd) = Returned \<and>
          state (snd (addWidget random s wd))
            = (state s)\<lparr>widgets := widgets (state s) @ [wd']\<rparr> \<and>
          validateWidget wd')) \<and>
   (i \<notin> w_id ` set (widgets (state s)) \<longrightarrow>
      updateWidget s i updates = (Threw (Error (''Widget not found: '' @ i)), s) \<and>
      removeWidget s i = (Threw (Error (''Widget not found: '' @ i)), s) \<and>
      moveWidget s i x y = (Threw (Error (''Widget not found: '' @ i)), s) \<and>
      resizeWidget s i w h = (Threw (Error (''Widget not found: '' @ i)), s) \<and>
      toggleWidgetMinimized s i = (Threw (Error (''Widget not found: '' @ i)), s)) \<and>
   (\<forall>k. findIndex (\<lambda>wd. w_id wd = i) (widgets (state s)) = Some k \<longrightarrow>
      (\<not> validateWidget (spread_widget (widgets (state s) ! k) updates) \<longrightarrow>
         updateWidget s i updates = (Threw (Error ''Invalid widget update''), s)) \<and>
      (validateWidget (spread_widget (widgets (state s) ! k) updates) \<longrightarrow>
         fst (updateWidget s i updates) = Returned \<and>
         state (snd (updateWidget s i updates))
           = (state s)\<lparr>widgets :=
                (widgets (state s))[k := spread_widget (widgets (state s) ! k) updates]\<rparr>)) \<and>
   (t \<notin> set validThemes \<longrightarrow> setTheme s t = (Threw (Error (''Invalid theme: '' @ t)), s)) \<and>
   (t \<in> set validThemes \<longrightarrow>
      fst (setTheme s t) = Returned \<and> state (snd (setTheme s t)) = (state s)\<lparr>theme := t\<rparr>) \<and>
   fst (updateGrid s g) = Returned \<and>
   state (snd (updateGrid s g))
     = (state s)\<lparr>grid :=
         \<lparr>cols = max 1 (min 24 (case g_cols g of None \<Rightarrow> cols (grid (state s))
                                  | Some n \<Rightarrow> if n = 0 then cols (grid (state s)) else n)),
          rowHeight = max 1 (case g_rowHeight g of None \<Rightarrow> rowHeight (grid (state s))
                             | Some n \<Rightarrow> if n = 0 then rowHeight (grid (state s)) else n),
          gap = max 0 (case g_gap g of None \<Rightarrow> gap (grid (state s))
                       | Some n \<Rightarrow> if n = 0 then gap (grid (state s)) else n)\<rparr>\<rparr> \<and>
   1 \<le> cols (grid (state (snd (updateGrid s g)))) \<and>
   cols (grid (state (snd (updateGrid s g)))) \<le> 24 \<and>
   1 \<le> rowHeight (grid (state (snd (updateGrid s g)))) \<and>
   0 \<le> gap (grid (state (snd (updateGrid s g))))"
proof -
  have add_bad: "\<not> validateWidget wd \<longrightarrow>
      addWidget random s wd = (Threw (Error ''Invalid widget configuration''), s)"
    by (simp add: addWidget_def)
  have taken: "list_ex (\<lambda>w. w_id w = w_id wd) (widgets (state s))
      \<longleftrightarrow> w_id wd \<in> w_id ` set (widgets (state s))"
    by (auto simp: list_ex_iff intro: rev_image_eqI)
  have add_ok: "validateWidget wd \<longrightarrow>
      (let wd' = (if w_id wd \<in> w_id ` set (widgets (state s))
                  then wd\<lparr>w_id := generateWidgetId (clock s) random (w_type wd)\<rparr>
                  else wd)
       in fst (addWidget random s wd) = Returned \<and>
          state (snd (addWidget random s wd))
            = (state s)\<lparr>widgets := widgets (state s) @ [wd']\<rparr> \<and>
          validateWidget wd')"
  proof
    assume v: "validateWidget wd"
    then have "validateWidget (wd\<lparr>w_id := generateWidgetId (clock s) random (w_type wd)\<rparr>)"
      by (simp add: validateWidget_def generateWidgetId_nonempty split: if_splits)
    with v show "let wd' = (if w_id wd \<in> w_id ` set (widgets (state s))
                  then wd\<lparr>w_id := generateWidgetId (clock s) random (w_type wd)\<rparr>
                  else wd)
       in fst (addWidget random s wd) = Returned \<and>
          state (snd (addWidget random s wd))
            = (state s)\<lparr>widgets := widgets (state s) @ [wd']\<rparr> \<and>
          validateWidget wd'"
      unfolding addWidget_def Let_def taken
      by (simp add: emit_def save_def set_widgets_def Let_def)
  qed
  have missing: "i \<notin> w_id ` set (widgets (state s)) \<longrightarrow>
      updateWidget s i updates = (Threw (Error (''Widget not found: '' @ i)), s) \<and>
      removeWidget s i = (Threw (Error (''Widget not found: '' @ i)), s) \<and>
      moveWidget s i x y = (Threw (Error (''Widget not found: '' @ i)), s) \<and>
      resizeWidget s i w h = (Threw (Error (''Widget not found: '' @ i)), s) \<and>
      toggleWidgetMinimized s i = (Threw (Error (''Widget not found: '' @ i)), s)"
  proof
    assume "i \<notin> w_id ` set (widgets (state s))"
    then have "findIndex (\<lambda>wd. w_id wd = i) (widgets (state s)) = None"
      by (auto simp: findIndex_None_iff)
    then show "updateWidget s i updates = (Threw (Error (''Widget not found: '' @ i)), s) \<and>
      removeWidget s i = (Threw (Error (''Widget not found: '' @ i)), s) \<and>
      moveWidget s i x y = (Threw (Error (''Widget not found: '' @ i)), s) \<and>
      resizeWidget s i w h = (Threw (Error (''Widget not found: '' @ i)), s) \<and>
      toggleWidgetMinimized s i = (Threw (Error (''Widget not found: '' @ i)), s)"
      by (simp add: updateWidget_def removeWidget_def moveWidget_def resizeWidget_def
          toggleWidgetMinimized_def)
  qed
  have upd: "\<forall>k. findIndex (\<lambda>wd. w_id wd = i) (widgets (state s)) = Some k \<longrightarrow>
      (\<not> validateWidget (spread_widget (widgets (state s) ! k) updates) \<longrightarrow>
         updateWidget s i updates = (Threw (Error ''Invalid widget update''), s)) \<and>
      (validateWidget (spread_widget (widgets (state s) ! k) updates) \<longrightarrow>
         fst (updateWidget s i updates) = Returned \<and>
         state (snd (updateWidget s i updates))
           = (state s)\<lparr>widgets :=
                (widgets (state s))[k := spread_widget (widgets (state s) ! k) updates]\<rparr>)"
    by (simp add: updateWidget_def Let_def emit_def save_def set_widgets_def)
  have themes: "(t \<notin> set validThemes \<longrightarrow> setTheme s t = (Threw (Error (''Invalid theme: '' @ t)), s)) \<and>
   (t \<in> set validThemes \<longrightarrow>
      fst (setTheme s t) = Returned \<and> state (snd (setTheme s t)) = (state s)\<lparr>theme := t\<rparr>)"
    by (simp add: setTheme_def emit_def save_def Let_def)
  have grd: "fst (updateGrid s g) = Returned \<and>
   state (snd (updateGrid s g))
     = (state s)\<lparr>grid :=
         \<lparr>cols = max 1 (min 24 (case g_cols g of None \<Rightarrow> cols (grid (state s))
                                  | Some n \<Rightarrow> if n = 0 then cols (grid (state s)) else n)),
          rowHeight = max 1 (case g_rowHeight g of None \<Rightarrow> rowHeight (grid (state s))
                             | Some n \<Rightarrow> if n = 0 then rowHeight (grid (state s)) else n),
          gap = max 0 (case g_gap g of None \<Rightarrow> gap (grid (state s))
                       | Some n \<Rightarrow> if n = 0 then gap (grid (state s)) else n)\<rparr>\<rparr> \<and>
   1 \<le> cols (grid (state (snd (updateGrid s g)))) \<and>
   cols (grid (state (snd (updateGrid s g)))) \<le> 24 \<and>
   1 \<le> rowHeight (grid (state (snd (updateGrid s g)))) \<and>
   0 \<le> gap (grid (state (snd (updateGrid s g))))"
    by (simp add: updateGrid_def or_current_def emit_def save_def Let_def)
  from add_bad add_ok missing upd themes grd show ?thesis
    by blast
qed


text \<open>
  The theorem on the example store: an invalid and a valid widget, an unknown id, an
  invalid and a valid update of \<open>a\<close>, an unknown and a known theme, thirty columns.
\<close>

theorem mutations_validate_witness:
  "\<not> validateWidget widget_b_column_0 \<and>
   addWidget ''r4nd0m'' edge_store widget_b_column_0
     = (Threw (Error ''Invalid widget configuration''), edge_store) \<and>
   validateWidget widget_b \<and>
   fst (addWidget ''r4nd0m'' edge_store widget_b) = Returned \<and>
   widgets (state (snd (addWidget ''r4nd0m'' edge_store widget_b)))
     = widgets (state edge_store) @ [widget_b] \<and>
   ''z'' \<notin> w_id ` set (widgets (state edge_store)) \<and>
   moveWidget edge_store ''z'' 1 1 = (Threw (Error (''Widget not found: '' @ ''z'')), edge_store) \<and>
   findIndex (\<lambda>wd. w_id wd = ''a'') (widgets (state edge_store)) = Some 0 \<and>
   \<not> validateWidget (spread_widget (widgets (state edge_store) ! 0) (xy_updates 0 1)) \<and>
   updateWidget edge_store ''a'' (xy_updates 0 1)
     = (Threw (Error ''Invalid widget update''), edge_store) \<and>
   validateWidget (spread_widget (widgets (state edge_store) ! 0) (xy_updates 2 1)) \<and>
   fst (updateWidget edge_store ''a'' (xy_updates 2 1)) = Returned \<and>
   ''neon'' \<notin> set validThemes \<and>
   setTheme edge_store ''neon'' = (Threw (Error (''Invalid theme: '' @ ''neon'')), edge_store) \<and>
   ''dark'' \<in> set validThemes \<and>
   theme (state (snd (setTheme edge_store ''dark''))) = ''dark'' \<and>
   grid (state (snd (updateGrid edge_store thirty_columns)))
     = \<lparr>cols = 24, rowHeight = 4, gap = 1\<rparr>"
proof -
  have bad: "\<not> validateWidget widget_b_column_0" and good: "validateWidget widget_b"
    by code_simp+
  have absent: "''z'' \<notin> w_id ` set (widgets (state edge_store))"
    by (simp add: edge_store_def new_store_def default_state_def)
  have fresh: "w_id widget_b \<notin> w_id ` set (widgets (state edge_store))"
    by (simp add: edge_store_def new_store_def default_state_def widget_b_def)
  have found: "findIndex (\<lambda>wd. w_id wd = ''a'') (widgets (state edge_store)) = Some 0"
    by (simp add: edge_store_def new_store_def default_state_def)
  have bad_update: "\<not> validateWidget (spread_widget (widgets (state edge_store) ! 0) (xy_updates 0 1))"
    and good_update: "validateWidget (spread_widget (widgets (state edge_store) ! 0) (xy_updates 2 1))"
    by code_simp+
  have themes: "''neon'' \<notin> set validThemes" "''dark'' \<in> set validThemes"
    by (simp_all add: validThemes_def)
  have current: "grid (state edge_store) = \<lparr>cols = 12, rowHeight = 4, gap = 1\<rparr>"
    by (simp add: edge_store_def new_store_def default_state_def)
  have thirty: "g_cols thirty_columns = Some 30" "g_rowHeight thirty_columns = Some 4"
      "g_gap thirty_columns = Some 1"
    by (simp_all add: thirty_columns_def)
  note first = mutations_validate [of widget_b_column_0 "''r4nd0m''" edge_store "''z''"
      "xy_updates 0 1" 1 1 1 1 "''neon''" thirty_columns, unfolded Let_def]
  note second = mutations_validate [of widget_b "''r4nd0m''" edge_store "''a''"
      "xy_updates 0 1" 1 1 1 1 "''dark''" thirty_columns, unfolded Let_def]
  note third = mutations_validate [of widget_b "''r4nd0m''" edge_store "''a''"
      "xy_updates 2 1" 1 1 1 1 "''dark''" thirty_columns, unfolded Let_def]
  have 1: "addWidget ''r4nd0m'' edge_store widget_b_column_0
     = (Threw (Error ''Invalid widget configuration''), edge_store)"
    using first bad by blast
  have 2: "fst (addWidget ''r4nd0m'' edge_store widget_b) = Returned"
    using second good by blast
  from second good have "state (snd (addWidget ''r4nd0m'' edge_store widget_b))
      = (state edge_store)\<lparr>widgets := widgets (state edge_store) @
          [if w_id widget_b \<in> w_id ` set (widgets (state edge_store))
           then widget_b\<lparr>w_id := generateWidgetId (clock edge_store) ''r4nd0m'' (w_type widget_b)\<rparr>
           else widget_b]\<rparr>"
    by blast
  then have appended: "widgets (state (snd (addWidget ''r4nd0m'' edge_store widget_b)))
     = widgets (state edge_store) @ [widget_b]"
    using fresh by simp
  have 3: "moveWidget edge_store ''z'' 1 1 = (Threw (Error (''Widget not found: '' @ ''z'')), edge_store)"
    using first absent by blast
  have 4: "updateWidget edge_store ''a'' (xy_updates 0 1)
     = (Threw (Error ''Invalid widget update''), edge_store)"
    using second found bad_update by blast
  have 5: "fst (updateWidget edge_store ''a'' (xy_updates 2 1)) = Returned"
    using third found good_update by blast
  have 6: "setTheme edge_store ''neon'' = (Threw (Error (''Invalid theme: '' @ ''neon'')), edge_store)"
    using first themes by blast
  from second themes have "state (snd (setTheme edge_store ''dark'')) = (state edge_store)\<lparr>theme := ''dark''\<rparr>"
    by blast
  then have 7: "theme (state (snd (setTheme edge_store ''dark''))) = ''dark''"
    by simp
  from first have "state (snd (updateGrid edge_store thirty_columns))
     = (state edge_store)\<lparr>grid :=
         \<lparr>cols = max 1 (min 24 (case g_cols thirty_columns of None \<Rightarrow> cols (grid (state edge_store))
                                  | Some n \<Rightarrow> if n = 0 then cols (grid (state edge_store)) else n)),
          rowHeight = max 1 (case g_rowHeight thirty_columns of None \<Rightarrow> rowHeight (grid (state edge_store))
                             | Some n \<Rightarrow> if n = 0 then rowHeight (grid (state edge_store)) else n),
          gap = max 0 (case g_gap thirty_columns of None \<Rightarrow> gap (grid (state edge_store))
                       | Some n \<Rightarrow> if n = 0 then gap (grid (state edge_store)) else n)\<rparr>\<rparr>"
    by (elim conjE)
  then have 8: "grid (state (snd (updateGrid edge_store thirty_columns)))
     = \<lparr>cols = 24, rowHeight = 4, gap = 1\<rparr>"
    by (simp add: current thirty)
  from bad good absent found bad_update good_update themes 1 2 appended 3 4 5 6 7 8
  show ?thesis by (intro conjI)
qed


section \<open>Migration\<close>

lemma migrateState_current:
  assumes "version (state s) = ''1.0.0''" and "d_version d = Some (version (state s))"
  shows "migrateState s rnd d = (d, 0)"
  using assms by (simp add: migrateState_def)

lemma migrateState_version:
  assumes "version (state s) = ''1.0.0''"
  shows "d_version (fst (migrateState s rnd d)) = Some (version (state s))"
proof (cases "(case d_version d of None \<Rightarrow> ''0.0.0'' | Some v \<Rightarrow> if v = [] then ''0.0.0'' else v)
                = version (state s)")
  case True
  then have "d_version d = Some ''1.0.0''"
    using assms by (auto split: option.splits if_splits)
  then show ?thesis
    using assms by (simp add: migrateState_def)
next
  case False
  then show ?thesis
    by (simp add: migrateState_def Let_def)
qed

text \<open>
  C7: in a store whose version is \<open>1.0.0\<close> (the version of the constructor, which no
  method changes), \<^const>\<open>migrateState\<close> returns a record of the current version as it
  is, without drawing a new id; the record it returns always carries the current
  version; so migrating the result again changes nothing.
\<close>

theorem migrateState_idempotent:
  assumes "version (state s) = ''1.0.0''"
  shows "(d_version d = Some (version (state s)) \<longrightarrow> migrateState s rnd d = (d, 0)) \<and>
         d_version (fst (migrateState s rnd d)) = Some (version (state s)) \<and>
         fst (migrateState s rnd' (fst (migrateState s rnd d))) = fst (migrateState s rnd d)"
proof -
  have a: "d_version d = Some (version (state s)) \<longrightarrow> migrateState s rnd d = (d, 0)"
    using migrateState_current [OF assms] by simp
  have b: "d_version (fst (migrateState s rnd d)) = Some (version (state s))"
    by (rule migrateState_version [OF assms])
  have "migrateState s rnd' (fst (migrateState s rnd d)) = (fst (migrateState s rnd d), 0)"
    using b by (rule migrateState_current [OF assms])
  then show ?thesis
    using a b by simp
qed

text \<open>
  The theorem on the example store, for its own state and for the record of version
  \<open>0.9.0\<close>, whose second \<open>b\<close> gets a new id.
\<close>

theorem migrateState_idempotent_witness:
  "version (state edge_store) = ''1.0.0'' \<and>
   d_version (doc_of (state edge_store)) = Some (version (state edge_store)) \<and>
   migrateState edge_store constant_random (doc_of (state edge_store))
     = (doc_of (state edge_store), 0) \<and>
   fst (migrateState edge_store constant_random old_record)
     = \<lparr>d_grid = Some \<lparr>cols = 12, rowHeight = 4, gap = 1\<rparr>,
        d_widgets = Some [widget_b, widget_b\<lparr>w_id := ''notes-0-r4nd0m''\<rparr>],
        d_theme = Some ''system'', d_version = Some ''1.0.0'', d_extras = no_extras\<rparr> \<and>
   fst (migrateState edge_store constant_random (fst (migrateState edge_store constant_random old_record)))
     = fst (migrateState edge_store constant_random old_record)"
proof -
  have v: "version (state edge_store) = ''1.0.0''"
    by (simp add: edge_store_def new_store_def default_state_def)
  have c: "d_version (doc_of (state edge_store)) = Some (version (state edge_store))"
    by (simp add: doc_of_def)
  have m: "fst (migrateState edge_store constant_random old_record)
     = \<lparr>d_grid = Some \<lparr>cols = 12, rowHeight = 4, gap = 1\<rparr>,
        d_widgets = Some [widget_b, widget_b\<lparr>w_id := ''notes-0-r4nd0m''\<rparr>],
        d_theme = Some ''system'', d_version = Some ''1.0.0'', d_extras = no_extras\<rparr>"
    by code_simp
  note t1 = migrateState_idempotent [OF v, of "doc_of (state edge_store)" constant_random constant_random]
  note t2 = migrateState_idempotent [OF v, of old_record constant_random constant_random]
  from t1 c have "migrateState edge_store constant_random (doc_of (state edge_store))
     = (doc_of (state edge_store), 0)"
    by blast
  moreover from t2 have "fst (migrateState edge_store constant_random
          (fst (migrateState edge_store constant_random old_record)))
     = fst (migrateState edge_store constant_random old_record)"
    by blast
  ultimately show ?thesis
    using v c m by (intro conjI)
qed


section \<open>Loading\<close>

lemma save_keeps:
  "state (save s) = state s \<and> setItemLog (save s) = setItemLog s \<and> item (save s) = item s \<and>
   emitted (save s) = emitted s \<and> clock (save s) = clock s \<and>
   debounceTimer (save s) = Some (nextHandle s) \<and>
   (nextHandle s, clock s + 500) \<in> set (timers (save s))"
  by (simp add: save_def Let_def debounceDelay_def)

text \<open>
  C4, as stated, fails: on a stored text that does not parse, \<^const>\<open>load\<close> throws the
  \<^verbatim>\<open>SyntaxError\<close> again; and on a fresh store without a record it writes nothing, it
  only sets the timer of the debounced save.
\<close>

theorem load_rethrows_counterexample:
  "fst (load constant_random (new_store 0 Malformed)) = Threw SyntaxError \<and>
   fst (load constant_random (new_store 0 Absent)) = Returned \<and>
   setItemLog (snd (load constant_random (new_store 0 Absent))) = [] \<and>
   item (snd (load constant_random (new_store 0 Absent))) = Absent \<and>
   timers (snd (load constant_random (new_store 0 Absent))) = [(1, 500)]"
  by code_simp

text \<open>
  C4, amended: a failure of reading or parsing (and the \<^verbatim>\<open>TypeError\<close> on the text
  \<^verbatim>\<open>null\<close>) leaves \<^const>\<open>load\<close> as an error, with the store untouched; \<^const>\<open>init\<close>
  catches it and goes on with the state as it is (the built-in default, at start-up)
  without persisting it. When there is no record, or the migrated record fails
  validation, \<^const>\<open>load\<close> returns, keeps the state, writes nothing at once and
  schedules the debounced save, due \<open>500\<close> ms later. A record whose migration passes
  validation is spread over the state.
\<close>

theorem load_outcomes:
  "(item s = Unreadable \<longrightarrow> load rnd s = (Threw DOMException, s) \<and> init rnd s = s) \<and>
   (item s = Malformed \<longrightarrow> load rnd s = (Threw SyntaxError, s) \<and> init rnd s = s) \<and>
   (item s = Null_json \<longrightarrow> load rnd s = (Threw TypeError, s) \<and> init rnd s = s) \<and>
   (item s = Absent \<or>
    (\<exists>d. item s = Record d \<and> \<not> validateState (fst (migrateState s rnd d))) \<longrightarrow>
      load rnd s = (Returned, save s) \<and> init rnd s = save s \<and>
      state (save s) = state s \<and> setItemLog (save s) = setItemLog s \<and>
      item (save s) = item s \<and>
      debounceTimer (save s) = Some (nextHandle s) \<and>
      (nextHandle s, clock s + 500) \<in> set (timers (save s))) \<and>
   (\<forall>d. item s = Record d \<and> validateState (fst (migrateState s rnd d)) \<longrightarrow>
      load rnd s = (Returned, s\<lparr>state := spread_state (state s) (fst (migrateState s rnd d))\<rparr>))"
proof -
  have thrown: "(item s = Unreadable \<longrightarrow> load rnd s = (Threw DOMException, s) \<and> init rnd s = s) \<and>
   (item s = Malformed \<longrightarrow> load rnd s = (Threw SyntaxError, s) \<and> init rnd s = s) \<and>
   (item s = Null_json \<longrightarrow> load rnd s = (Threw TypeError, s) \<and> init rnd s = s)"
    by (simp add: load_def init_def)
  have fallback: "load rnd s = (Returned, save s) \<and> init rnd s = save s"
    if "item s = Absent \<or>
        (\<exists>d. item s = Record d \<and> \<not> validateState (fst (migrateState s rnd d)))"
    using that by (auto simp: load_def init_def Let_def)
  have valid: "\<forall>d. item s = Record d \<and> validateState (fst (migrateState s rnd d)) \<longrightarrow>
      load rnd s = (Returned, s\<lparr>state := spread_state (state s) (fst (migrateState s rnd d))\<rparr>)"
    by (simp add: load_def Let_def)
  from thrown fallback valid save_keeps [of s] show ?thesis
    by blast
qed

text \<open>
  The theorem on fresh stores: an unparsable text, no record, and the record of
  version \<open>0.9.0\<close>.
\<close>

theorem load_outcomes_witness:
  "item (new_store 0 Malformed) = Malformed \<and>
   load constant_random (new_store 0 Malformed) = (Threw SyntaxError, new_store 0 Malformed) \<and>
   init constant_random (new_store 0 Malformed) = new_store 0 Malformed \<and>
   item (new_store 0 Absent) = Absent \<and>
   load constant_random (new_store 0 Absent) = (Returned, save (new_store 0 Absent)) \<and>
   state (save (new_store 0 Absent)) = default_state \<and>
   item (new_store 0 (Record old_record)) = Record old_record \<and>
   validateState (fst (migrateState (new_store 0 (Record old_record)) constant_random old_record)) \<and>
   widgets (state (snd (load constant_random (new_store 0 (Record old_record)))))
     = [widget_b, widget_b\<lparr>w_id := ''notes-0-r4nd0m''\<rparr>]"
proof -
  have i: "item (new_store 0 Malformed) = Malformed" "item (new_store 0 Absent) = Absent"
    "item (new_store 0 (Record old_record)) = Record old_record"
    by (simp_all add: new_store_def)
  have v: "validateState (fst (migrateState (new_store 0 (Record old_record)) constant_random old_record))"
    by code_simp
  have w: "widgets (spread_state (state (new_store 0 (Record old_record)))
       (fst (migrateState (new_store 0 (Record old_record)) constant_random old_record)))
     = [widget_b, widget_b\<lparr>w_id := ''notes-0-r4nd0m''\<rparr>]"
    by code_simp
  have d: "state (new_store 0 Absent) = default_state"
    by (simp add: new_store_def)
  note m = load_outcomes [of "new_store 0 Malformed" constant_random]
  note a = load_outcomes [of "new_store 0 Absent" constant_random]
  note r = load_outcomes [of "new_store 0 (Record old_record)" constant_random]
  from m i have 1: "load constant_random (new_store 0 Malformed) = (Threw SyntaxError, new_store 0 Malformed)"
    "init constant_random (new_store 0 Malformed) = new_store 0 Malformed"
    by blast+
  from a i have 2: "load constant_random (new_store 0 Absent) = (Returned, save (new_store 0 Absent))"
    "state (save (new_store 0 Absent)) = state (new_store 0 Absent)"
    by blast+
  from r i v have "load constant_random (new_store 0 (Record old_record))
      = (Returned, (new_store 0 (Record old_record))\<lparr>state :=
           spread_state (state (new_store 0 (Record old_record)))
             (fst (migrateState (new_store 0 (Record old_record)) constant_random old_record))\<rparr>)"
    by blast
  then have 3: "widgets (state (snd (load constant_random (new_store 0 (Record old_record)))))
     = [widget_b, widget_b\<lparr>w_id := ''notes-0-r4nd0m''\<rparr>]"
    using w by simp
  from i v 1 2 3 d show ?thesis
    by simp
qed


section \<open>Persistence\<close>

lemma essentialState_log:
  "essentialState (s\<lparr>setItemLog := l\<rparr>) = essentialState s"
  by (simp add: essentialState_def)

lemma stateToSave_log:
  "stateToSave (s\<lparr>setItemLog := l\<rparr>) = stateToSave s"
  by (simp add: stateToSave_def)

lemma essentialState_default:
  "state s = default_state \<Longrightarrow> essentialState s = default_state"
  by (simp add: essentialState_def default_state_def)

text \<open>The body of \<^const>\<open>saveImmediate\<close> in terms of \<^const>\<open>handleQuotaExceeded\<close>.\<close>

lemma saveImmediate_unfold:
  "saveImmediate setItem s =
     (let first = setItem (stateToSave s);
          s1 = s\<lparr>setItemLog := setItemLog s @ [(stateToSave s, first)]\<rparr>
      in if first = Stored
         then Some (emit ''save'' (s1\<lparr>item := Record (stateToSave s)\<rparr>))
         else if first = Throws ''QuotaExceededError''
         then handleQuotaExceeded setItem s1
         else Some s1)"
  by (subst saveImmediate.simps)
     (simp add: handleQuotaExceeded_def reset_def Let_def essentialState_log stateToSave_log)

lemma saveImmediate_stored:
  "setItem (stateToSave s) = Stored \<Longrightarrow>
   saveImmediate setItem s =
     Some (emit ''save'' (s\<lparr>setItemLog := setItemLog s @ [(stateToSave s, Stored)],
                            item := Record (stateToSave s)\<rparr>))"
  by (subst saveImmediate.simps) (simp add: Let_def)

lemma saveImmediate_no_quota:
  "setItem (stateToSave s) \<noteq> Throws ''QuotaExceededError'' \<Longrightarrow>
   \<exists>s'. saveImmediate setItem s = Some s' \<and> state s' = state s \<and>
        debounceTimer s' = debounceTimer s \<and> timers s' = timers s"
  by (subst saveImmediate.simps) (simp add: Let_def emit_def)

lemma saveImmediate_keeps_default_imp:
  assumes "saveImmediate setItem0 s0 = Some s0'"
  shows "state s0 = default_state \<longrightarrow> state s0' = default_state"
proof (rule saveImmediate.raw_induct
    [where P = "\<lambda>setItem s s'. state s = default_state \<longrightarrow> state s' = default_state",
      OF _ assms], goal_cases)
  case (1 saveImmediate' setItem s s')
  show ?case
  proof
    assume d: "state s = default_state"
    show "state s' = default_state"
    proof (cases "setItem (stateToSave s) = Stored")
      case True
      then show ?thesis using 1(2) d by (auto simp: Let_def emit_def)
    next
      case False
      note first = this
      show ?thesis
      proof (cases "setItem (stateToSave s) = Throws ''QuotaExceededError''")
        case False
        then show ?thesis using first 1(2) d by (auto simp: Let_def)
      next
        case True
        note quota = this
        show ?thesis
        proof (cases "setItem (doc_of (essentialState s)) = Stored")
          case True
          then show ?thesis
            using first quota 1(2) d
            by (auto simp: Let_def essentialState_default)
        next
          case False
          with first quota 1(2) obtain s3 where
            "saveImmediate' setItem
               (s\<lparr>setItemLog := setItemLog s @ [(stateToSave s, Throws ''QuotaExceededError''),
                     (doc_of (essentialState s), setItem (doc_of (essentialState s)))],
                  state := default_state\<rparr>) = Some s3"
            and "s' = emit ''reset'' s3"
            by (auto simp: Let_def bind_eq_Some_conv)
          then show ?thesis
            using 1(1) by (auto simp: emit_def)
        qed
      qed
    qed
  qed
qed

lemma saveImmediate_keeps_default:
  "saveImmediate setItem s = Some s' \<Longrightarrow> state s = default_state \<Longrightarrow> state s' = default_state"
  using saveImmediate_keeps_default_imp by blast


text \<open>
  The two outcomes of a write that fails with \<^verbatim>\<open>QuotaExceededError\<close>: the record with
  the last twenty widgets (grid, theme and version kept) is written, once. If that write
  succeeds, it becomes the state: \<^verbatim>\<open>setItem\<close> was called twice in all, and of
  twenty-five widgets the last twenty remain. If it fails, \<^const>\<open>reset\<close> runs, which
  saves again: whenever the call returns the state is the built-in default, and it does
  return if the storage does not answer the write of the default record with
  \<^verbatim>\<open>QuotaExceededError\<close> again.
\<close>

lemma quota_exceeded_outcomes:
  assumes "setItem (stateToSave s) = Throws ''QuotaExceededError''"
  shows
    "(setItem (doc_of (essentialState s)) = Stored \<longrightarrow>
        saveImmediate setItem s =
          Some (s\<lparr>setItemLog := setItemLog s @
                     [(stateToSave s, Throws ''QuotaExceededError''),
                      (doc_of (essentialState s), Stored)],
                  item := Record (doc_of (essentialState s)),
                  state := essentialState s\<rparr>) \<and>
        widgets (essentialState s) = drop (length (widgets (state s)) - 20) (widgets (state s)) \<and>
        grid (essentialState s) = grid (state s) \<and>
        theme (essentialState s) = theme (state s) \<and>
        version (essentialState s) = version (state s) \<and>
        (length (widgets (state s)) = 25 \<longrightarrow>
           length (widgets (essentialState s)) = 20 \<and>
           widgets (essentialState s) = drop 5 (widgets (state s)))) \<and>
     (setItem (doc_of (essentialState s)) \<noteq> Stored \<longrightarrow>
        saveImmediate setItem s =
          reset setItem
            (s\<lparr>setItemLog := setItemLog s @
                 [(stateToSave s, Throws ''QuotaExceededError''),
                  (doc_of (essentialState s), setItem (doc_of (essentialState s)))]\<rparr>) \<and>
        (\<forall>s'. saveImmediate setItem s = Some s' \<longrightarrow> state s' = default_state) \<and>
        (setItem (stateToSave (s\<lparr>state := default_state\<rparr>)) \<noteq> Throws ''QuotaExceededError'' \<longrightarrow>
           (\<exists>s'. saveImmediate setItem s = Some s')))"
proof (intro conjI impI)
  assume retry: "setItem (doc_of (essentialState s)) = Stored"
  show "saveImmediate setItem s =
          Some (s\<lparr>setItemLog := setItemLog s @
                     [(stateToSave s, Throws ''QuotaExceededError''),
                      (doc_of (essentialState s), Stored)],
                  item := Record (doc_of (essentialState s)),
                  state := essentialState s\<rparr>)"
    using assms retry by (subst saveImmediate.simps) (simp add: Let_def)
next
  show "widgets (essentialState s) = drop (length (widgets (state s)) - 20) (widgets (state s))"
    "grid (essentialState s) = grid (state s)"
    "theme (essentialState s) = theme (state s)"
    "version (essentialState s) = version (state s)"
    by (simp_all add: essentialState_def)
next
  assume "length (widgets (state s)) = 25"
  then show "length (widgets (essentialState s)) = 20"
    "widgets (essentialState s) = drop 5 (widgets (state s))"
    by (simp_all add: essentialState_def)
next
  assume retry: "setItem (doc_of (essentialState s)) \<noteq> Stored"
  let ?s2 = "s\<lparr>setItemLog := setItemLog s @
                 [(stateToSave s, Throws ''QuotaExceededError''),
                  (doc_of (essentialState s), setItem (doc_of (essentialState s)))]\<rparr>"
  show unfolded: "saveImmediate setItem s = reset setItem ?s2"
    using assms retry by (subst saveImmediate.simps) (simp add: Let_def reset_def)
  show "\<forall>s'. saveImmediate setItem s = Some s' \<longrightarrow> state s' = default_state"
  proof (intro allI impI)
    fix s' assume "saveImmediate setItem s = Some s'"
    then obtain s3 where "saveImmediate setItem (?s2\<lparr>state := default_state\<rparr>) = Some s3"
      and "s' = emit ''reset'' s3"
      by (auto simp: unfolded reset_def bind_eq_Some_conv)
    then show "state s' = default_state"
      using saveImmediate_keeps_default [of setItem "?s2\<lparr>state := default_state\<rparr>" s3]
      by (simp add: emit_def)
  qed
  assume "setItem (stateToSave (s\<lparr>state := default_state\<rparr>)) \<noteq> Throws ''QuotaExceededError''"
  moreover have "stateToSave (?s2\<lparr>state := default_state\<rparr>) = stateToSave (s\<lparr>state := default_state\<rparr>)"
    by (simp add: stateToSave_def)
  ultimately obtain s3 where "saveImmediate setItem (?s2\<lparr>state := default_state\<rparr>) = Some s3"
    using saveImmediate_no_quota [of setItem "?s2\<lparr>state := default_state\<rparr>"] by auto
  then show "\<exists>s'. saveImmediate setItem s = Some s'"
    by (simp add: unfolded reset_def)
qed

text \<open>
  On the store of twenty-five widgets: a storage with room for twenty keeps \<open>w5\<close>, ...,
  \<open>w24\<close>; a storage with room for none leaves the default state.
\<close>

lemma quota_exceeded_outcomes_example:
  "length (widgets (state crowded_store)) = 25 \<and>
   room_for 20 (stateToSave crowded_store) = Throws ''QuotaExceededError'' \<and>
   room_for 20 (doc_of (essentialState crowded_store)) = Stored \<and>
   map_option (\<lambda>s'. map w_id (widgets (state s'))) (saveImmediate (room_for 20) crowded_store)
     = Some (map (\<lambda>n. ''w'' @ decimal n) [5 ..< 25]) \<and>
   map_option (\<lambda>s'. (grid (state s'), theme (state s'))) (saveImmediate (room_for 20) crowded_store)
     = Some (grid (state crowded_store), theme (state crowded_store)) \<and>
   room_for 0 (stateToSave crowded_store) = Throws ''QuotaExceededError'' \<and>
   room_for 0 (doc_of (essentialState crowded_store)) \<noteq> Stored \<and>
   room_for 0 (stateToSave (crowded_store\<lparr>state := default_state\<rparr>)) \<noteq> Throws ''QuotaExceededError'' \<and>
   (\<exists>s'. saveImmediate (room_for 0) crowded_store = Some s' \<and> state s' = default_state)"
proof -
  have n: "length (widgets (state crowded_store)) = 25"
    by (simp add: crowded_store_def new_store_def)
  have a: "room_for 20 (stateToSave crowded_store) = Throws ''QuotaExceededError''"
    "room_for 20 (doc_of (essentialState crowded_store)) = Stored"
    by (simp_all add: room_for_def stateToSave_def doc_of_def essentialState_def n)
  have b: "room_for 0 (stateToSave crowded_store) = Throws ''QuotaExceededError''"
    "room_for 0 (doc_of (essentialState crowded_store)) \<noteq> Stored"
    "room_for 0 (stateToSave (crowded_store\<lparr>state := default_state\<rparr>)) \<noteq> Throws ''QuotaExceededError''"
    by (simp_all add: room_for_def stateToSave_def doc_of_def essentialState_def n default_state_def)
  have ids: "map w_id (drop 5 (widgets (state crowded_store))) = map (\<lambda>n. ''w'' @ decimal n) [5 ..< 25]"
    by code_simp
  note first = quota_exceeded_outcomes [of "room_for 20" crowded_store, OF a(1)]
  note second = quota_exceeded_outcomes [of "room_for 0" crowded_store, OF b(1)]
  from first a(2) n have 1: "saveImmediate (room_for 20) crowded_store =
          Some (crowded_store\<lparr>setItemLog := setItemLog crowded_store @
                     [(stateToSave crowded_store, Throws ''QuotaExceededError''),
                      (doc_of (essentialState crowded_store), Stored)],
                  item := Record (doc_of (essentialState crowded_store)),
                  state := essentialState crowded_store\<rparr>)"
    and 2: "widgets (essentialState crowded_store) = drop 5 (widgets (state crowded_store))"
    and 3: "grid (essentialState crowded_store) = grid (state crowded_store)"
       "theme (essentialState crowded_store) = theme (state crowded_store)"
    by blast+
  from second b(2,3) obtain s' where 4: "saveImmediate (room_for 0) crowded_store = Some s'"
    by blast
  with second b(2) have 5: "state s' = default_state"
    by blast
  from n a b 1 2 3 4 5 ids show ?thesis
    by simp
qed

text \<open>
  A storage that refuses every record never lets \<^const>\<open>saveImmediate\<close> return: each
  round of \<^const>\<open>reset\<close> saves again and is refused again.
\<close>

lemma saveImmediate_refused_imp:
  assumes "saveImmediate setItem0 s0 = Some s0'"
  shows "\<exists>d. setItem0 d \<noteq> Throws ''QuotaExceededError''"
proof (rule saveImmediate.raw_induct
    [where P = "\<lambda>setItem s s'. \<exists>d. setItem d \<noteq> Throws ''QuotaExceededError''",
      OF _ assms], goal_cases)
  case (1 saveImmediate' setItem s s')
  show ?case
  proof (rule ccontr)
    assume "\<not> (\<exists>d. setItem d \<noteq> Throws ''QuotaExceededError'')"
    then have full: "setItem d = Throws ''QuotaExceededError''" for d
      by simp
    with 1(2) obtain s2 s3 where "saveImmediate' setItem s2 = Some s3"
      by (auto simp: Let_def bind_eq_Some_conv)
    then show False
      using 1(1) full by blast
  qed
qed

lemma saveImmediate_refused:
  "(\<And>d. setItem d = Throws ''QuotaExceededError'') \<Longrightarrow> saveImmediate setItem s = None"
  using saveImmediate_refused_imp [of setItem s] by (cases "saveImmediate setItem s") auto

text \<open>
  C5 on the store of twenty-five widgets with a storage that is full: the write fails
  with \<^verbatim>\<open>QuotaExceededError\<close>, the one retry with the last twenty widgets fails too, and
  \<^verbatim>\<open>reset()\<close> is entered; but \<^verbatim>\<open>reset()\<close> calls \<^verbatim>\<open>saveImmediate()\<close>, whose write of the
  default record is refused, whose retry is refused, which enters \<^verbatim>\<open>reset()\<close> again, and
  so on without a bound: the call does not return with the store reset to the default
  state, it does not return at all.
\<close>

theorem saveImmediate_refused_example:
  "length (widgets (state crowded_store)) = 25 \<and>
   always_full (stateToSave crowded_store) = Throws ''QuotaExceededError'' \<and>
   always_full (doc_of (essentialState crowded_store)) = Throws ''QuotaExceededError'' \<and>
   saveImmediate always_full crowded_store
     = reset always_full
         (crowded_store\<lparr>setItemLog :=
            [(stateToSave crowded_store, Throws ''QuotaExceededError''),
             (doc_of (essentialState crowded_store), Throws ''QuotaExceededError'')]\<rparr>) \<and>
   reset always_full
         (crowded_store\<lparr>setItemLog :=
            [(stateToSave crowded_store, Throws ''QuotaExceededError''),
             (doc_of (essentialState crowded_store), Throws ''QuotaExceededError'')]\<rparr>) = None \<and>
   saveImmediate always_full crowded_store = None"
proof -
  have n: "length (widgets (state crowded_store)) = 25"
    by (simp add: crowded_store_def new_store_def)
  have l: "setItemLog crowded_store = []"
    by (simp add: crowded_store_def new_store_def)
  have u: "saveImmediate always_full crowded_store
     = reset always_full
         (crowded_store\<lparr>setItemLog :=
            [(stateToSave crowded_store, Throws ''QuotaExceededError''),
             (doc_of (essentialState crowded_store), Throws ''QuotaExceededError'')]\<rparr>)"
    by (subst saveImmediate.simps) (simp add: Let_def reset_def always_full_def l)
  have r: "saveImmediate always_full s = None" for s
    by (rule saveImmediate_refused) (simp add: always_full_def)
  from n u r show ?thesis
    by (simp add: always_full_def reset_def)
qed


section \<open>Export and import\<close>

lemma unique_ids_length:
  "length (fst (unique_ids now rnd seenIds k ws)) = length ws"
  by (induction ws arbitrary: seenIds k) (simp_all add: Let_def)

lemma unique_ids_valid:
  "list_all validateWidget ws \<Longrightarrow> list_all validateWidget (fst (unique_ids now rnd seenIds k ws))"
proof (induction ws arbitrary: seenIds k)
  case Nil
  then show ?case by simp
next
  case (Cons wd ws)
  then have "validateWidget (wd\<lparr>w_id := generateWidgetId now (rnd k) (w_type wd)\<rparr>)"
    by (simp add: validateWidget_def generateWidgetId_nonempty split: if_splits)
  with Cons show ?case by (simp add: Let_def)
qed

lemma validateState_iff:
  "validateState d \<longleftrightarrow>
     (\<exists>g ws t. d_grid d = Some g \<and> d_widgets d = Some ws \<and> d_theme d = Some t \<and> t \<noteq> [] \<and>
        1 \<le> cols g \<and> cols g \<le> 24 \<and> 1 \<le> rowHeight g \<and> 0 \<le> gap g \<and>
        list_all validateWidget ws)"
  by (auto simp: validateState_def split: option.splits)

lemma migrateState_valid:
  assumes "validateState d"
  shows "validateState (fst (migrateState s rnd d)) \<and>
         d_grid (fst (migrateState s rnd d)) = d_grid d \<and>
         d_theme (fst (migrateState s rnd d)) = d_theme d \<and>
         map_option length (d_widgets (fst (migrateState s rnd d))) = map_option length (d_widgets d)"
proof -
  from assms obtain g ws t where d: "d_grid d = Some g" "d_widgets d = Some ws" "d_theme d = Some t"
    "t \<noteq> []" "1 \<le> cols g" "cols g \<le> 24" "1 \<le> rowHeight g" "0 \<le> gap g"
    "list_all validateWidget ws"
    by (auto simp: validateState_iff)
  have v1: "validateState (fst (migrateToV1 s rnd d)\<lparr>d_version := v\<rparr>)" for v
    using d by (simp add: validateState_iff migrateToV1_def Let_def unique_ids_valid)
  have v0: "validateState (d\<lparr>d_version := v\<rparr>)" for v
    using d by (simp add: validateState_iff)
  show ?thesis
    using assms d v0 v1
    by (simp add: migrateState_def Let_def migrateToV1_def unique_ids_length)
qed

lemma those_map_Some: "those (map Some xs) = Some xs"
  by (induction xs) simp_all








lemma importLayout_throws:
  assumes "importLayout setItem rnd s objects (Some l) = Some (Threw e, s', objects')"
  shows "s' = set_widgets (live (fst (snd (migrateState_in_place s rnd
               \<lparr>live = widgets (state s), own = objects\<rparr> l)))) s \<and>
         objects' = own (fst (snd (migrateState_in_place s rnd
               \<lparr>live = widgets (state s), own = objects\<rparr> l)))"
  using assms
  by (auto simp: importLayout_def Let_def split: option.splits if_splits outcome.splits)





text \<open>
  A failed import can rename a widget of the store. The store holds two widgets with the
  id \<open>b\<close>; its exported document, which holds the same two objects, is given the
  version \<open>0.9.0\<close> and thirty columns by the caller. \<^verbatim>\<open>migrateToV1\<close> assigns a new id to
  the second object, \<^verbatim>\<open>validateState\<close> then refuses the thirty columns, and
  \<^const>\<open>importLayout\<close> throws with the second widget of the store renamed.
\<close>

lemma importLayout_shared_example:
  "map w_id (widgets (state twin_store)) = [''b'', ''b''] \<and>
   importLayout unlimited constant_random twin_store [] (Some (edited_export twin_store))
     = Some (Threw (Error ''Invalid layout data structure''),
             set_widgets [widget_b, widget_b\<lparr>w_id := ''notes-0-r4nd0m''\<rparr>] twin_store, [])"
  by code_simp





text \<open>
  On a document whose widgets are distinct objects that nothing else holds (such as
  what \<^verbatim>\<open>JSON.parse\<close> returns in \<^const>\<open>load\<close>), the migration on the objects never
  throws, leaves the widgets of the store alone, and gives the document and the count
  of \<^const>\<open>migrateState\<close>.
\<close>

lemma unique_ids_in_place_unshared:
  "unique_ids_in_place now rnd seenIds k \<lparr>live = lv, own = pre @ ws\<rparr>
       (map Own [length pre ..< length pre + length ws])
     = (Returned, \<lparr>live = lv, own = pre @ fst (unique_ids now rnd seenIds k ws)\<rparr>,
        snd (unique_ids now rnd seenIds k ws))"
proof (induction ws arbitrary: pre seenIds k)
  case Nil
  then show ?case by simp
next
  case (Cons wd ws)
  have refs: "map Own [length pre ..< length pre + length (wd # ws)]
      = Own (length pre) # map Own [length (pre @ [x]) ..< length (pre @ [x]) + length ws]" for x :: widget
    by (simp add: upt_conv_Cons del: upt_Suc)
  show ?case
  proof (cases "w_id wd \<in> seenIds")
    case True
    define wd' where "wd' = wd\<lparr>w_id := generateWidgetId now (rnd k) (w_type wd)\<rparr>"
    have "unique_ids_in_place now rnd seenIds k \<lparr>live = lv, own = pre @ wd # ws\<rparr>
            (map Own [length pre ..< length pre + length (wd # ws)])
        = unique_ids_in_place now rnd (insert (w_id wd') seenIds) (Suc k)
            \<lparr>live = lv, own = (pre @ [wd']) @ ws\<rparr>
            (map Own [length (pre @ [wd']) ..< length (pre @ [wd']) + length ws])"
      unfolding refs [of wd'] using True by (simp add: wd'_def Let_def)
    also have "\<dots> = (Returned,
          \<lparr>live = lv, own = (pre @ [wd']) @ fst (unique_ids now rnd (insert (w_id wd') seenIds) (Suc k) ws)\<rparr>,
          snd (unique_ids now rnd (insert (w_id wd') seenIds) (Suc k) ws))"
      by (rule Cons.IH)
    finally show ?thesis
      using True by (simp add: wd'_def Let_def)
  next
    case False
    have "unique_ids_in_place now rnd seenIds k \<lparr>live = lv, own = pre @ wd # ws\<rparr>
            (map Own [length pre ..< length pre + length (wd # ws)])
        = unique_ids_in_place now rnd (insert (w_id wd) seenIds) k
            \<lparr>live = lv, own = (pre @ [wd]) @ ws\<rparr>
            (map Own [length (pre @ [wd]) ..< length (pre @ [wd]) + length ws])"
      unfolding refs [of wd] using False by simp
    also have "\<dots> = (Returned,
          \<lparr>live = lv, own = (pre @ [wd]) @ fst (unique_ids now rnd (insert (w_id wd) seenIds) k ws)\<rparr>,
          snd (unique_ids now rnd (insert (w_id wd) seenIds) k ws))"
      by (rule Cons.IH)
    finally show ?thesis
      using False by (simp add: Let_def)
  qed
qed

lemma deref_own_all:
  "length ws' = length ws \<Longrightarrow>
   map (deref \<lparr>live = lv, own = ws'\<rparr>) (map Own [0 ..< length ws]) = map Some ws'"
proof (rule nth_equalityI)
  assume l: "length ws' = length ws"
  then show "length (map (deref \<lparr>live = lv, own = ws'\<rparr>) (map Own [0 ..< length ws]))
      = length (map Some ws')"
    by simp
  fix i assume "i < length (map (deref \<lparr>live = lv, own = ws'\<rparr>) (map Own [0 ..< length ws]))"
  then have "i < length ws" by simp
  then show "map (deref \<lparr>live = lv, own = ws'\<rparr>) (map Own [0 ..< length ws]) ! i
      = map Some ws' ! i"
    using l by (simp del: map_map)
qed

lemma migrateState_in_place_unshared:
  "(let r = migrateState_in_place s rnd \<lparr>live = lv, own = ws\<rparr>
              \<lparr>l_grid = g, l_widgets = Some (map Own [0 ..< length ws]), l_theme = t,
               l_version = v, l_extras = x\<rparr>;
        m = migrateState s rnd
              \<lparr>d_grid = g, d_widgets = Some ws, d_theme = t, d_version = v, d_extras = x\<rparr>
    in fst r = Returned \<and> live (fst (snd r)) = lv \<and>
       contents (fst (snd r)) (fst (snd (snd r))) = Some (fst m) \<and>
       snd (snd (snd r)) = snd m)"
proof -
  have u: "unique_ids_in_place (clock s) rnd {} 0 \<lparr>live = lv, own = ws\<rparr> (map Own [0 ..< length ws])
     = (Returned, \<lparr>live = lv, own = fst (unique_ids (clock s) rnd {} 0 ws)\<rparr>,
        snd (unique_ids (clock s) rnd {} 0 ws))"
    using unique_ids_in_place_unshared [of "clock s" rnd "{}" 0 lv "[]" ws] by simp
  have a: "those (map (deref \<lparr>live = lv, own = ws\<rparr>) (map Own [0 ..< length ws])) = Some ws"
    by (simp only: deref_own_all [OF refl] those_map_Some)
  have b: "those (map (deref \<lparr>live = lv, own = fst (unique_ids (clock s) rnd {} 0 ws)\<rparr>)
              (map Own [0 ..< length ws])) = Some (fst (unique_ids (clock s) rnd {} 0 ws))"
    by (simp only: deref_own_all [OF unique_ids_length] those_map_Some)
  show ?thesis
    unfolding migrateState_in_place_def migrateState_def migrateToV1_in_place_def
      migrateToV1_def contents_def Let_def
    by (simp add: u a b del: map_map)
qed


section \<open>Debounced saving\<close>

lemma advance_nothing_due:
  assumes "list_all (\<lambda>(h, due). t < due) (timers s)"
  shows "advance setItem t s = Some (s\<lparr>clock := max (clock s) t\<rparr>)"
proof -
  have "filter (\<lambda>(h, due). due \<le> t) (timers s) = []"
    using assms by (auto simp: filter_empty_conv list_all_iff)
  moreover have "filter (\<lambda>(h, due). \<not> due \<le> t) (timers s) = timers s"
    using assms by (auto simp: filter_id_conv list_all_iff)
  ultimately show ?thesis
    by (simp add: advance_def)
qed

lemma save_replaces_timer:
  assumes "list_all (\<lambda>(h, due). debounceTimer s = Some h \<and> h \<noteq> 0) (timers s)"
  shows "save s = s\<lparr>timers := [(nextHandle s, clock s + 500)],
                      debounceTimer := Some (nextHandle s),
                      nextHandle := Suc (nextHandle s)\<rparr>"
proof -
  have "(case debounceTimer s of
           None \<Rightarrow> timers s
         | Some handle \<Rightarrow> if handle \<noteq> 0 then clearTimeout handle (timers s) else timers s) = []"
    using assms
    by (cases "timers s")
       (auto simp: clearTimeout_def filter_empty_conv list_all_iff split: option.splits)
  then show ?thesis
    by (simp add: save_def debounceDelay_def)
qed

lemma save_calls_burst:
  assumes "list_all (\<lambda>(h, due). t < due \<and> debounceTimer s = Some h \<and> h \<noteq> 0) (timers s)"
    and "nextHandle s \<noteq> 0" and "clock s \<le> t" and "within_window t ts"
  shows "save_calls setItem (t # ts) s =
           Some (s\<lparr>timers := [(nextHandle s + length ts, last (t # ts) + 500)],
                   debounceTimer := Some (nextHandle s + length ts),
                   nextHandle := Suc (nextHandle s + length ts),
                   clock := last (t # ts)\<rparr>)"
  using assms
proof (induction ts arbitrary: s t)
  case Nil
  then have a: "advance setItem t s = Some (s\<lparr>clock := t\<rparr>)"
    using advance_nothing_due [of t s setItem] by (simp add: list_all_iff max_def split_beta)
  have "save (s\<lparr>clock := t\<rparr>) = s\<lparr>clock := t, timers := [(nextHandle s, t + 500)],
                      debounceTimer := Some (nextHandle s),
                      nextHandle := Suc (nextHandle s)\<rparr>"
    using Nil save_replaces_timer [of "s\<lparr>clock := t\<rparr>"]
    by (simp add: list_all_iff split_beta)
  then show ?case
    using a by simp
next
  case (Cons t' ts)
  then have a: "advance setItem t s = Some (s\<lparr>clock := t\<rparr>)"
    using advance_nothing_due [of t s setItem] by (simp add: list_all_iff max_def split_beta)
  define s1 where "s1 = save (s\<lparr>clock := t\<rparr>)"
  have s1: "s1 = s\<lparr>clock := t, timers := [(nextHandle s, t + 500)],
                      debounceTimer := Some (nextHandle s),
                      nextHandle := Suc (nextHandle s)\<rparr>"
    unfolding s1_def
    using Cons.prems save_replaces_timer [of "s\<lparr>clock := t\<rparr>"]
    by (simp add: list_all_iff split_beta)
  have "save_calls setItem (t' # ts) s1 =
           Some (s1\<lparr>timers := [(nextHandle s1 + length ts, last (t' # ts) + 500)],
                   debounceTimer := Some (nextHandle s1 + length ts),
                   nextHandle := Suc (nextHandle s1 + length ts),
                   clock := last (t' # ts)\<rparr>)"
    using Cons.prems by (intro Cons.IH) (simp_all add: s1 debounceDelay_def)
  moreover have "save_calls setItem (t # t' # ts) s = save_calls setItem (t' # ts) s1"
    using a by (simp add: s1_def)
  ultimately show ?case
    by (simp add: s1)
qed


lemma stateToSave_timers:
  "stateToSave (s\<lparr>timers := ts\<rparr>) = stateToSave s"
  by (simp add: stateToSave_def)

lemma advance_single_due:
  assumes "timers s = [(h, due)]" and "due \<le> T" and "clock s \<le> due"
  shows "advance setItem T s =
           Option.bind (saveImmediate setItem (s\<lparr>timers := [], clock := due\<rparr>))
             (\<lambda>s'. Some (s'\<lparr>clock := max (clock s') T\<rparr>))"
  using assms by (simp add: advance_def max_def)

text \<open>
  C8: let \<open>N \<ge> 1\<close> calls of \<^const>\<open>save\<close> come at the times \<open>t # ts\<close>, each less than
  \<open>500\<close> ms after the one before, on a store without a pending timer. Then nothing is
  written during the burst and exactly one timer is pending after it, due \<open>500\<close> ms
  after the last call: before that time the event loop runs no callback, from that time
  on it runs \<^const>\<open>saveImmediate\<close> once, and when the storage takes the record exactly
  one write is logged and nothing is pending any more. \<^const>\<open>flush\<close>, called while
  that timer is pending, cancels it and runs \<^const>\<open>saveImmediate\<close> at once; when the
  storage takes the record, one write is logged and no later time brings a second one.
\<close>

theorem debounce_coalesces:
  assumes "timers s = []" and "nextHandle s \<noteq> 0" and "clock s \<le> t" and "within_window t ts"
  shows "\<exists>s1 h. save_calls setItem (t # ts) s = Some s1 \<and>
           setItemLog s1 = setItemLog s \<and> state s1 = state s \<and> clock s1 = last (t # ts) \<and>
           h \<noteq> 0 \<and> debounceTimer s1 = Some h \<and> timers s1 = [(h, last (t # ts) + 500)] \<and>
           (\<forall>T. last (t # ts) \<le> T \<and> T < last (t # ts) + 500 \<longrightarrow>
                advance setItem T s1 = Some (s1\<lparr>clock := T\<rparr>)) \<and>
           (\<forall>T. last (t # ts) + 500 \<le> T \<longrightarrow>
                advance setItem T s1 =
                  Option.bind
                    (saveImmediate setItem (s1\<lparr>timers := [], clock := last (t # ts) + 500\<rparr>))
                    (\<lambda>s'. Some (s'\<lparr>clock := max (clock s') T\<rparr>))) \<and>
           (setItem (stateToSave (s1\<lparr>clock := last (t # ts) + 500\<rparr>)) = Stored \<longrightarrow>
              (\<forall>T. last (t # ts) + 500 \<le> T \<longrightarrow>
                 (\<exists>s2. advance setItem T s1 = Some s2 \<and>
                       setItemLog s2 = setItemLog s @
                         [(stateToSave (s1\<lparr>clock := last (t # ts) + 500\<rparr>), Stored)] \<and>
                       timers s2 = [] \<and>
                       (\<forall>T'. advance setItem T' s2 = Some (s2\<lparr>clock := max (clock s2) T'\<rparr>))))) \<and>
           flush setItem s1 = saveImmediate setItem (s1\<lparr>timers := []\<rparr>) \<and>
           (setItem (stateToSave s1) = Stored \<longrightarrow>
              (\<exists>s3. flush setItem s1 = Some s3 \<and>
                    setItemLog s3 = setItemLog s @ [(stateToSave s1, Stored)] \<and>
                    timers s3 = [] \<and>
                    (\<forall>T. advance setItem T s3 = Some (s3\<lparr>clock := max (clock s3) T\<rparr>))))"
proof -
  define h where "h = nextHandle s + length ts"
  define L where "L = last (t # ts)"
  define s1 where "s1 = s\<lparr>timers := [(h, L + 500)], debounceTimer := Some h,
                          nextHandle := Suc h, clock := L\<rparr>"
  have burst: "save_calls setItem (t # ts) s = Some s1"
    unfolding s1_def h_def L_def
    using assms by (intro save_calls_burst) simp_all
  have h0: "h \<noteq> 0"
    using assms(2) by (simp add: h_def)
  have basics: "setItemLog s1 = setItemLog s" "state s1 = state s" "clock s1 = L"
    "debounceTimer s1 = Some h" "timers s1 = [(h, L + 500)]"
    by (simp_all add: s1_def)
  have early: "advance setItem T s1 = Some (s1\<lparr>clock := T\<rparr>)" if "L \<le> T \<and> T < L + 500" for T
    using that advance_nothing_due [of T s1 setItem] by (simp add: basics max_def)
  have late: "advance setItem T s1 =
                Option.bind (saveImmediate setItem (s1\<lparr>timers := [], clock := L + 500\<rparr>))
                  (\<lambda>s'. Some (s'\<lparr>clock := max (clock s') T\<rparr>))" if "L + 500 \<le> T" for T
    using that by (intro advance_single_due) (simp_all add: basics)
  have written: "\<exists>s2. advance setItem T s1 = Some s2 \<and>
        setItemLog s2 = setItemLog s @ [(stateToSave (s1\<lparr>clock := L + 500\<rparr>), Stored)] \<and>
        timers s2 = [] \<and>
        (\<forall>T'. advance setItem T' s2 = Some (s2\<lparr>clock := max (clock s2) T'\<rparr>))"
    if ok: "setItem (stateToSave (s1\<lparr>clock := L + 500\<rparr>)) = Stored" and T: "L + 500 \<le> T" for T
  proof -
    let ?s = "s1\<lparr>timers := [], clock := L + 500\<rparr>"
    have "setItem (stateToSave ?s) = Stored"
      using ok by (simp add: stateToSave_def)
    from saveImmediate_stored [of setItem ?s, OF this]
    obtain s2 where s2: "saveImmediate setItem ?s = Some s2"
      "setItemLog s2 = setItemLog s @ [(stateToSave (s1\<lparr>clock := L + 500\<rparr>), Stored)]"
      "timers s2 = []"
      by (simp add: emit_def basics stateToSave_def)
    let ?s2 = "s2\<lparr>clock := max (clock s2) T\<rparr>"
    have "advance setItem T s1 = Some ?s2"
      by (simp add: late [OF T] s2)
    moreover have "advance setItem T' ?s2 = Some (?s2\<lparr>clock := max (clock ?s2) T'\<rparr>)" for T'
      by (intro advance_nothing_due) (simp add: s2)
    ultimately show ?thesis
      using s2 by simp
  qed
  have fl: "flush setItem s1 = saveImmediate setItem (s1\<lparr>timers := []\<rparr>)"
    using h0 by (simp add: flush_def basics clearTimeout_def)
  have flushed: "\<exists>s3. flush setItem s1 = Some s3 \<and>
        setItemLog s3 = setItemLog s @ [(stateToSave s1, Stored)] \<and> timers s3 = [] \<and>
        (\<forall>T. advance setItem T s3 = Some (s3\<lparr>clock := max (clock s3) T\<rparr>))"
    if ok: "setItem (stateToSave s1) = Stored"
  proof -
    have "setItem (stateToSave (s1\<lparr>timers := []\<rparr>)) = Stored"
      using ok by (simp add: stateToSave_timers)
    from saveImmediate_stored [of setItem "s1\<lparr>timers := []\<rparr>", OF this]
    obtain s3 where s3: "saveImmediate setItem (s1\<lparr>timers := []\<rparr>) = Some s3"
      "setItemLog s3 = setItemLog s @ [(stateToSave s1, Stored)]" "timers s3 = []"
      by (simp add: emit_def basics stateToSave_timers)
    moreover have "advance setItem T s3 = Some (s3\<lparr>clock := max (clock s3) T\<rparr>)" for T
      by (intro advance_nothing_due) (simp add: s3)
    ultimately show ?thesis
      by (simp add: fl)
  qed
  show ?thesis
    apply (rule exI [of _ s1])
    apply (rule exI [of _ h])
    unfolding L_def [symmetric]
    using burst h0 basics early late written fl flushed
    by (intro conjI allI impI) simp_all
qed


text \<open>
  The theorem for four calls at \<open>0\<close>, \<open>100\<close>, \<open>400\<close> and \<open>899\<close> ms on a fresh store:
  one write by the time \<open>2000\<close>, and one write when \<^const>\<open>flush\<close> follows the burst.
\<close>

theorem debounce_coalesces_witness:
  "timers (new_store 0 Absent) = [] \<and> nextHandle (new_store 0 Absent) \<noteq> 0 \<and>
   clock (new_store 0 Absent) \<le> 0 \<and> within_window 0 [100, 400, 899] \<and>
   (\<exists>s2. Option.bind (save_calls unlimited [0, 100, 400, 899] (new_store 0 Absent))
            (advance unlimited 2000) = Some s2 \<and>
         length (setItemLog s2) = 1 \<and> timers s2 = []) \<and>
   (\<exists>s3. Option.bind (save_calls unlimited [0, 100, 400, 899] (new_store 0 Absent))
            (flush unlimited) = Some s3 \<and>
         length (setItemLog s3) = 1 \<and> timers s3 = [] \<and>
         map_option (\<lambda>s4. length (setItemLog s4)) (advance unlimited 2000 s3) = Some 1)"
proof -
  have a: "timers (new_store 0 Absent) = []" "nextHandle (new_store 0 Absent) \<noteq> 0"
    "clock (new_store 0 Absent) \<le> 0"
    by (simp_all add: new_store_def)
  have w: "within_window 0 [100, 400, 899]"
    by (simp add: debounceDelay_def)
  have e: "setItemLog (new_store 0 Absent) = []"
    by (simp add: new_store_def)
  from debounce_coalesces [OF a w, of unlimited] obtain s1
    where b: "save_calls unlimited [0, 100, 400, 899] (new_store 0 Absent) = Some s1"
      and late: "\<forall>T. 899 + 500 \<le> T \<longrightarrow>
                 (\<exists>s2. advance unlimited T s1 = Some s2 \<and>
                       setItemLog s2 = setItemLog (new_store 0 Absent) @
                         [(stateToSave (s1\<lparr>clock := 899 + 500\<rparr>), Stored)] \<and>
                       timers s2 = [] \<and>
                       (\<forall>T'. advance unlimited T' s2 = Some (s2\<lparr>clock := max (clock s2) T'\<rparr>)))"
      and fl: "\<exists>s3. flush unlimited s1 = Some s3 \<and>
                    setItemLog s3 = setItemLog (new_store 0 Absent) @ [(stateToSave s1, Stored)] \<and>
                    timers s3 = [] \<and>
                    (\<forall>T. advance unlimited T s3 = Some (s3\<lparr>clock := max (clock s3) T\<rparr>))"
    by (auto simp: unlimited_def)
  have "(899::nat) + 500 \<le> 2000"
    by simp
  with late have "\<exists>s2. advance unlimited 2000 s1 = Some s2 \<and>
       setItemLog s2 = setItemLog (new_store 0 Absent) @
         [(stateToSave (s1\<lparr>clock := 899 + 500\<rparr>), Stored)] \<and> timers s2 = []"
    by blast
  then obtain s2 where "advance unlimited 2000 s1 = Some s2"
    "length (setItemLog s2) = 1" "timers s2 = []"
    by (auto simp: e)
  then have 1: "\<exists>s2. Option.bind (save_calls unlimited [0, 100, 400, 899] (new_store 0 Absent))
            (advance unlimited 2000) = Some s2 \<and>
         length (setItemLog s2) = 1 \<and> timers s2 = []"
    unfolding b by simp
  from fl obtain s3 where "flush unlimited s1 = Some s3" "length (setItemLog s3) = 1"
    "timers s3 = []" "advance unlimited 2000 s3 = Some (s3\<lparr>clock := max (clock s3) 2000\<rparr>)"
    by (auto simp: e)
  then have 2: "\<exists>s3. Option.bind (save_calls unlimited [0, 100, 400, 899] (new_store 0 Absent))
            (flush unlimited) = Some s3 \<and>
         length (setItemLog s3) = 1 \<and> timers s3 = [] \<and>
         map_option (\<lambda>s4. length (setItemLog s4)) (advance unlimited 2000 s3) = Some 1"
    unfolding b by simp
  from a w 1 2 show ?thesis
    by (intro conjI)
qed


section \<open>The version of the state\<close>

text \<open>
  The constructor and \<^verbatim>\<open>reset\<close> set the version \<open>1.0.0\<close>; the lemmas below show that
  every method keeps it.
\<close>

lemma version_save: "version (state (save s)) = version (state s)"
  by (simp add: save_def Let_def)

lemma version_emit: "version (state (emit ev s)) = version (state s)"
  by (simp add: emit_def)

lemma saveImmediate_keeps_version_imp:
  assumes "saveImmediate setItem0 s0 = Some s0'"
  shows "version (state s0) = ''1.0.0'' \<longrightarrow> version (state s0') = ''1.0.0''"
proof (rule saveImmediate.raw_induct
    [where P = "\<lambda>setItem s s'. version (state s) = ''1.0.0'' \<longrightarrow> version (state s') = ''1.0.0''",
      OF _ assms], goal_cases)
  case (1 saveImmediate' setItem s s')
  show ?case
  proof
    assume v: "version (state s) = ''1.0.0''"
    show "version (state s') = ''1.0.0''"
    proof (cases "setItem (stateToSave s) = Throws ''QuotaExceededError'' \<and>
                  setItem (doc_of (essentialState s)) \<noteq> Stored")
      case False
      then show ?thesis
        using 1(2) v by (auto simp: Let_def emit_def essentialState_def split: if_splits)
    next
      case True
      with 1(2) obtain s3 where
        "saveImmediate' setItem
           (s\<lparr>setItemLog := setItemLog s @ [(stateToSave s, Throws ''QuotaExceededError''),
                 (doc_of (essentialState s), setItem (doc_of (essentialState s)))],
              state := default_state\<rparr>) = Some s3"
        and "s' = emit ''reset'' s3"
        by (auto simp: Let_def bind_eq_Some_conv)
      then show ?thesis
        using 1(1) by (auto simp: default_state_def version_emit)
    qed
  qed
qed

text \<open>No method changes the version of the state.\<close>

lemma version_kept:
  assumes "version (state s) = ''1.0.0''"
  shows "version (state (snd (load rnd s))) = ''1.0.0''"
    and "version (state (snd (addWidget random s wd))) = ''1.0.0''"
    and "version (state (snd (updateWidget s i updates))) = ''1.0.0''"
    and "version (state (snd (removeWidget s i))) = ''1.0.0''"
    and "version (state (snd (moveWidget s i x y))) = ''1.0.0''"
    and "version (state (snd (resizeWidget s i w h))) = ''1.0.0''"
    and "version (state (snd (toggleWidgetMinimized s i))) = ''1.0.0''"
    and "version (state (snd (setTheme s t))) = ''1.0.0''"
    and "version (state (snd (updateGrid s g))) = ''1.0.0''"
    and "saveImmediate setItem s = Some s' \<Longrightarrow> version (state s') = ''1.0.0''"
    and "importLayout setItem rnd s objects layoutData = Some (outc, s', objects') \<Longrightarrow>
         version (state s') = ''1.0.0''"
proof -
  show "version (state (snd (load rnd s))) = ''1.0.0''"
    using assms migrateState_version [OF assms, of rnd]
    by (auto simp: load_def Let_def spread_state_def version_save split: blob.splits)
  show "version (state (snd (addWidget random s wd))) = ''1.0.0''"
    using assms by (simp add: version_save version_emit addWidget_def Let_def set_widgets_def)
  show "version (state (snd (updateWidget s i updates))) = ''1.0.0''"
    using assms by (simp add: version_save version_emit updateWidget_def Let_def set_widgets_def split: option.splits)
  show "version (state (snd (removeWidget s i))) = ''1.0.0''"
    using assms by (simp add: version_save version_emit removeWidget_def set_widgets_def split: option.splits)
  show "version (state (snd (moveWidget s i x y))) = ''1.0.0''"
    using assms by (simp add: version_save version_emit moveWidget_def set_widgets_def split: option.splits)
  show "version (state (snd (resizeWidget s i w h))) = ''1.0.0''"
    using assms by (simp add: version_save version_emit resizeWidget_def set_widgets_def split: option.splits)
  show "version (state (snd (toggleWidgetMinimized s i))) = ''1.0.0''"
    using assms by (simp add: version_save version_emit toggleWidgetMinimized_def set_widgets_def split: option.splits)
  show "version (state (snd (setTheme s t))) = ''1.0.0''"
    using assms by (simp add: version_save version_emit setTheme_def)
  show "version (state (snd (updateGrid s g))) = ''1.0.0''"
    using assms by (simp add: version_save version_emit updateGrid_def Let_def)
  show "version (state s') = ''1.0.0''" if "saveImmediate setItem s = Some s'"
    using saveImmediate_keeps_version_imp [OF that] assms by simp
  show "version (state s') = ''1.0.0''"
    if i: "importLayout setItem rnd s objects layoutData = Some (outc, s', objects')"
  proof (cases outc)
    case (Threw e)
    show ?thesis
    proof (cases layoutData)
      case None
      with i show ?thesis using assms by (simp add: importLayout_def)
    next
      case (Some l)
      with i Threw importLayout_throws [of setItem rnd s objects l e s' objects']
      show ?thesis using assms by (simp add: set_widgets_def)
    qed
  next
    case Returned
    with i obtain s1 s2 where "saveImmediate setItem s1 = Some s2" "version (state s1) = ''1.0.0''"
      "s' = emit ''layoutImported'' s2"
      using assms
      by (auto simp: importLayout_def Let_def split: option.splits if_splits outcome.splits)
    then show ?thesis
      using saveImmediate_keeps_version_imp [of setItem s1 s2] by (simp add: version_emit)
  qed
qed


end
